theory Spec2Isabelle
  imports Complex_Main
begin

section \<open>Data model\<close>

text \<open>
  The development embeds \<^verbatim>\<open>GenericPropagationModule::run\<close> and
  \<^verbatim>\<open>GenericPropagationModule::propagate\<close>
  (src/modules/GenericPropagation/GenericPropagationModule.cpp) and the recombination model
  \<^verbatim>\<open>None\<close> (src/physics/Recombination.hpp).

  Conventions of the embedding.
  \<^item> A C++ \<^verbatim>\<open>double\<close> is a \<open>real\<close>: comparisons and the control flow they decide are
    those of the code; rounding, infinities and NaN are not represented.
  \<^item> An \<^verbatim>\<open>unsigned int\<close> is a \<open>nat\<close>. Every operation of the batching code on such values
    yields a result bounded by the deposit's charge (the subtraction in the loop is guarded by
    the truncation before it), so no wrap-around can occur there; the one division whose divisor
    may be zero is a fault of the model.
  \<^item> Logging, histograms and the line-graph point buffers (with the loop of lines 494-497 that
    fills them) are left out; the state written to the line-graph entry at the end of
    \<^verbatim>\<open>propagate\<close> is kept.
\<close>

datatype CarrierType = ELECTRON | HOLE

datatype CarrierState = UNKNOWN | MOTION | RECOMBINED | TRAPPED | HALTED

text \<open>
  Modelled from the spec: the integer values of the \<^verbatim>\<open>CarrierType\<close> enumerators
  (objects/SensorCharge.hpp is not among the sources). The spec gives every carrier type a sign
  +1 or -1; \<^verbatim>\<open>initialize()\<close> ties a field with negative z component at the implants to
  electron collection there, which makes the electron the carrier of sign -1.
\<close>

fun carrier_sign :: "CarrierType \<Rightarrow> real" where
  "carrier_sign ELECTRON = - 1"
| "carrier_sign HOLE = 1"

datatype Vector3d = Vector3d (vx: real) (vy: real) (vz: real)

fun vplus :: "Vector3d \<Rightarrow> Vector3d \<Rightarrow> Vector3d" where
  "vplus (Vector3d a b c) (Vector3d d e f) = Vector3d (a + d) (b + e) (c + f)"

fun vscale :: "real \<Rightarrow> Vector3d \<Rightarrow> Vector3d" where
  "vscale k (Vector3d a b c) = Vector3d (k * a) (k * b) (k * c)"

fun vdivide :: "Vector3d \<Rightarrow> real \<Rightarrow> Vector3d" where
  "vdivide (Vector3d a b c) k = Vector3d (a / k) (b / k) (c / k)"

fun vdot :: "Vector3d \<Rightarrow> Vector3d \<Rightarrow> real" where
  "vdot (Vector3d a b c) (Vector3d d e f) = a * d + b * e + c * f"

fun vcross :: "Vector3d \<Rightarrow> Vector3d \<Rightarrow> Vector3d" where
  "vcross (Vector3d a b c) (Vector3d d e f) =
     Vector3d (b * f - c * e) (c * d - a * f) (a * e - b * d)"

definition vnorm :: "Vector3d \<Rightarrow> real" where
  "vnorm v = sqrt (vdot v v)"

definition vzero :: Vector3d where
  "vzero = Vector3d 0 0 0"

record DepositedCharge =
  dep_local_position :: Vector3d
  dep_local_time :: real
  dep_global_time :: real
  dep_type :: CarrierType
  dep_charge :: nat

record PropagatedCharge =
  pc_local_position :: Vector3d
  pc_global_position :: Vector3d
  pc_type :: CarrierType
  pc_charge :: nat
  pc_local_time :: real
  pc_global_time :: real
  pc_state :: CarrierState
  pc_deposit :: DepositedCharge

text \<open>
  The module object: the configuration values copied by the constructor, and the collaborators
  reached through \<^verbatim>\<open>detector_\<close>, \<^verbatim>\<open>model_\<close> and the physics-model wrappers. The
  collaborators' code is not among the sources (only \<^verbatim>\<open>Recombination\<close> is), so they are
  fields of the record: every theorem holds for whatever they compute. The type \<open>'g\<close> is the
  state of the event's random number generator; a distribution takes the generator and returns
  the sample with the generator advanced. The last field is the value the platform's
  \<^verbatim>\<open>std::lround\<close> gives where the C++ standard leaves it unspecified.
\<close>

record 'g Module =
  boltzmann_kT :: real
  timestep_min :: real
  timestep_max :: real
  timestep_start :: real
  integration_time :: real
  target_spatial_precision :: real
  output_linegraphs :: bool
  propagate_electrons :: bool
  propagate_holes :: bool
  charge_per_step :: nat
  max_charge_groups :: nat
  has_magnetic_field :: bool
  electron_Hall :: real
  hole_Hall :: real
  getElectricField :: "Vector3d \<Rightarrow> Vector3d"
  getMagneticField :: "Vector3d \<Rightarrow> Vector3d"
  getDopingConcentration :: "Vector3d \<Rightarrow> real"
  getGlobalPosition :: "Vector3d \<Rightarrow> Vector3d"
  isWithinSensor :: "Vector3d \<Rightarrow> bool"
  getSensorIntercept :: "Vector3d \<Rightarrow> Vector3d \<Rightarrow> Vector3d"
  getSensorSize_z :: real
  mobility :: "CarrierType \<Rightarrow> real \<Rightarrow> real \<Rightarrow> real"
  recombination :: "CarrierType \<Rightarrow> real \<Rightarrow> real \<Rightarrow> real \<Rightarrow> bool"
  trapping :: "CarrierType \<Rightarrow> real \<Rightarrow> real \<Rightarrow> real \<Rightarrow> bool"
  detrapping :: "CarrierType \<Rightarrow> real \<Rightarrow> real \<Rightarrow> real"
  multiplication :: "CarrierType \<Rightarrow> real \<Rightarrow> real \<Rightarrow> real"
  rk_increment :: "(real \<Rightarrow> Vector3d \<Rightarrow> Vector3d) \<Rightarrow> real \<Rightarrow> real \<Rightarrow> Vector3d \<Rightarrow> Vector3d \<times> Vector3d"
  normal_distribution :: "real \<Rightarrow> 'g \<Rightarrow> real \<times> 'g"
  uniform_distribution :: "'g \<Rightarrow> real \<times> 'g"
  lround_unspecified :: "real \<Rightarrow> int"

section \<open>Physics models selected by "none"\<close>

text \<open>\<^verbatim>\<open>None::operator()\<close> of Recombination.hpp: never recombines.\<close>

definition Recombination_None :: "CarrierType \<Rightarrow> real \<Rightarrow> real \<Rightarrow> real \<Rightarrow> bool" where
  "Recombination_None ty doping survival_prob timestep = False"

text \<open>
  Modelled from the spec: the trapping, detrapping and multiplication models chosen by "none"
  (physics/Trapping.hpp, physics/Detrapping.hpp and physics/ImpactIonization.hpp are not among
  the sources). A trapping model "none" never signals capture, and a multiplication model
  "none" contributes the gain factor 1 at every step. With no capture the detrapping model is
  never consulted, so nothing is assumed of it.
\<close>

definition Trapping_None :: "CarrierType \<Rightarrow> real \<Rightarrow> real \<Rightarrow> real \<Rightarrow> bool" where
  "Trapping_None ty probability timestep efield_mag = False"

definition Multiplication_None :: "CarrierType \<Rightarrow> real \<Rightarrow> real \<Rightarrow> real" where
  "Multiplication_None ty efield_mag step_length = 1"

section \<open>The velocity evaluators\<close>

definition carrier_velocity_noB :: "'g Module \<Rightarrow> CarrierType \<Rightarrow> real \<Rightarrow> Vector3d \<Rightarrow> Vector3d" where
  "carrier_velocity_noB m ty t cur_pos =
     (let efield = getElectricField m cur_pos;
          doping = getDopingConcentration m cur_pos
      in vscale (carrier_sign ty * mobility m ty (vnorm efield) doping) efield)"

definition carrier_velocity_withB :: "'g Module \<Rightarrow> CarrierType \<Rightarrow> real \<Rightarrow> Vector3d \<Rightarrow> Vector3d" where
  "carrier_velocity_withB m ty t cur_pos =
     (let efield = getElectricField m cur_pos;
          bfield = getMagneticField m cur_pos;
          doping = getDopingConcentration m cur_pos;
          mob = mobility m ty (vnorm efield) doping;
          exb = vcross efield bfield;
          hallFactor = (if ty = ELECTRON then electron_Hall m else hole_Hall m);
          term1 = vscale (carrier_sign ty * mob * hallFactor) exb;
          term2 = vscale (mob * mob * hallFactor * hallFactor * vdot efield bfield) bfield;
          rnorm = 1 + mob * mob * hallFactor * hallFactor * vdot bfield bfield
      in vdivide (vscale (carrier_sign ty * mob) (vplus (vplus efield term1) term2)) rnorm)"

definition carrier_velocity :: "'g Module \<Rightarrow> CarrierType \<Rightarrow> real \<Rightarrow> Vector3d \<Rightarrow> Vector3d" where
  "carrier_velocity m ty =
     (if has_magnetic_field m then carrier_velocity_withB m ty else carrier_velocity_noB m ty)"

section \<open>The Runge-Kutta stepper\<close>

text \<open>
  Modelled from the spec: the stepper of tools/runge_kutta.h, which is not among the sources.
  It is a value holding the position \<open>rk_y\<close>, the elapsed time \<open>rk_t\<close> and the step size
  \<open>rk_h\<close>. A step evaluates the velocity function at the stage points of the tableau (the field
  \<open>rk_increment\<close> of the module: from the velocity function, the time, the step size and the
  position to the consumed step vector and the local error vector), adds the step vector to the
  position and the step size to the elapsed time, and leaves the step size as it is.
  \<^verbatim>\<open>advanceTime\<close> adds to the elapsed time without a spatial step.
\<close>

record RungeKutta =
  rk_y :: Vector3d
  rk_t :: real
  rk_h :: real

definition make_runge_kutta :: "real \<Rightarrow> Vector3d \<Rightarrow> RungeKutta" where
  "make_runge_kutta step_size initial_y = \<lparr>rk_y = initial_y, rk_t = 0, rk_h = step_size\<rparr>"

definition rk_step :: "'g Module \<Rightarrow> CarrierType \<Rightarrow> RungeKutta \<Rightarrow> RungeKutta \<times> Vector3d \<times> Vector3d" where
  "rk_step m ty rk =
     (let (step_value, step_error) = rk_increment m (carrier_velocity m ty) (rk_t rk) (rk_h rk) (rk_y rk)
      in (rk\<lparr>rk_y := vplus (rk_y rk) step_value, rk_t := rk_t rk + rk_h rk\<rparr>, step_value, step_error))"

definition advanceTime :: "real \<Rightarrow> RungeKutta \<Rightarrow> RungeKutta" where
  "advanceTime t rk = rk\<lparr>rk_t := rk_t rk + t\<rparr>"

section \<open>One iteration of the stepping loop of propagate()\<close>

text \<open>The variables of \<^verbatim>\<open>propagate\<close> that live across iterations of its loop.\<close>

record 'g Carrier =
  position :: Vector3d
  last_position :: Vector3d
  efield :: Vector3d
  last_efield :: Vector3d
  last_time :: real
  state :: CarrierState
  gain :: real
  runge_kutta :: RungeKutta
  random_generator :: 'g

text \<open>The lambda \<^verbatim>\<open>carrier_diffusion\<close>: three draws, in the order x, y, z.\<close>

definition carrier_diffusion :: "'g Module \<Rightarrow> CarrierType \<Rightarrow> real \<Rightarrow> real \<Rightarrow> real \<Rightarrow> 'g \<Rightarrow> Vector3d \<times> 'g" where
  "carrier_diffusion m ty efield_mag doping_concentration timestep g =
     (let diffusion_constant = boltzmann_kT m * mobility m ty efield_mag doping_concentration;
          diffusion_std_dev = sqrt (2 * diffusion_constant * timestep);
          (x, g1) = normal_distribution m diffusion_std_dev g;
          (y, g2) = normal_distribution m diffusion_std_dev g1;
          (z, g3) = normal_distribution m diffusion_std_dev g2
      in (Vector3d x y z, g3))"

text \<open>
  Lines 505-521: the Runge-Kutta step and the diffusion added to its result. The values the
  rest of the iteration reads are collected in a record: the stepper (holding the position after
  diffusion), the step and error vectors, the step size of this step, the field at the position
  before diffusion, the position after diffusion, and the generator after the three draws.
\<close>

record 'g Moved =
  mv_runge_kutta :: RungeKutta
  mv_step_value :: Vector3d
  mv_step_error :: Vector3d
  mv_timestep :: real
  mv_efield :: Vector3d
  mv_position :: Vector3d
  mv_generator :: 'g

definition drift_diffuse :: "'g Module \<Rightarrow> CarrierType \<Rightarrow> 'g Carrier \<Rightarrow> 'g Moved" where
  "drift_diffuse m ty c =
     (let (rk1, step_value, step_error) = rk_step m ty (runge_kutta c);
          timestep = rk_h rk1;
          position1 = rk_y rk1;
          efield1 = getElectricField m position1;
          doping = getDopingConcentration m position1;
          (diffusion, g1) = carrier_diffusion m ty (vnorm efield1) doping timestep (random_generator c);
          position2 = vplus position1 diffusion
      in \<lparr>mv_runge_kutta = rk1\<lparr>rk_y := position2\<rparr>, mv_step_value = step_value,
          mv_step_error = step_error, mv_timestep = timestep, mv_efield = efield1,
          mv_position = position2, mv_generator = g1\<rparr>)"

text \<open>Lines 592-597: the limits on the step size, the upper one tested first.\<close>

definition limit_timestep :: "'g Module \<Rightarrow> real \<Rightarrow> real" where
  "limit_timestep m timestep =
     (if timestep > timestep_max m then timestep_max m
      else if timestep < timestep_min m then timestep_min m
      else timestep)"

text \<open>
  Lines 579-598: the adaptation of the step size from the position after diffusion, the step
  vector and the error vector of the step just taken.
\<close>

definition adapt_timestep :: "'g Module \<Rightarrow> Vector3d \<Rightarrow> Vector3d \<Rightarrow> Vector3d \<Rightarrow> real \<Rightarrow> real" where
  "adapt_timestep m pos step_value step_error timestep =
     (let uncertainty = vnorm step_error;
          timestep1 =
            (if \<bar>getSensorSize_z m / 2 - vz pos\<bar> < 2 * vz step_value then timestep * 0.75
             else if uncertainty > target_spatial_precision m then timestep * 0.75
             else if 2 * uncertainty < target_spatial_precision m then timestep * 1.5
             else timestep)
      in limit_timestep m timestep1)"

text \<open>
  Lines 536-555: the trapping test. It always draws once; on capture it draws again for the
  detrapping time and either advances the stepper's clock or marks the carrier as trapped.
\<close>

definition trapping_check :: "'g Module \<Rightarrow> CarrierType \<Rightarrow> real \<Rightarrow> real \<Rightarrow> real \<Rightarrow>
    CarrierState \<times> RungeKutta \<times> 'g \<Rightarrow> CarrierState \<times> RungeKutta \<times> 'g" where
  "trapping_check m ty initial_time timestep efield_mag srg =
     (case srg of (st, rk, g) \<Rightarrow>
        (let (u, g1) = uniform_distribution m g in
         if trapping m ty u timestep efield_mag then
           (let (v, g2) = uniform_distribution m g1;
                detrap_time = detrapping m ty v efield_mag
            in if initial_time + rk_t rk + detrap_time < integration_time m
               then (st, advanceTime detrap_time rk, g2)
               else (TRAPPED, rk, g2))
         else (st, rk, g1)))"

text \<open>Lines 500-598: the body of the loop.\<close>

definition propagate_step :: "'g Module \<Rightarrow> CarrierType \<Rightarrow> real \<Rightarrow> 'g Carrier \<Rightarrow> 'g Carrier" where
  "propagate_step m ty initial_time c =
     (let last_position1 = position c;
          last_time1 = rk_t (runge_kutta c);
          last_efield1 = efield c;
          mv = drift_diffuse m ty c;
          state1 = (if \<not> isWithinSensor m (mv_position mv) then HALTED else state c);
          (u, g2) = uniform_distribution m (mv_generator mv);
          state2 = (if recombination m ty (getDopingConcentration m (mv_position mv)) u (mv_timestep mv)
                    then RECOMBINED else state1);
          (state3, rk3, g3) = trapping_check m ty initial_time (mv_timestep mv) (vnorm (mv_efield mv))
                                (state2, mv_runge_kutta mv, g2);
          gain1 = gain c * multiplication m ty ((vnorm (mv_efield mv) + vnorm last_efield1) / 2)
                             (vnorm (mv_step_value mv));
          timestep1 = adapt_timestep m (mv_position mv) (mv_step_value mv) (mv_step_error mv) (mv_timestep mv)
      in \<lparr>position = mv_position mv, last_position = last_position1, efield = mv_efield mv,
          last_efield = last_efield1, last_time = last_time1, state = state3, gain = gain1,
          runge_kutta = rk3\<lparr>rk_h := timestep1\<rparr>, random_generator = g3\<rparr>)"

text \<open>
  The tests of one iteration, read off the body of the loop for a carrier \<open>c\<close> at the head of
  the loop: whether the position after diffusion is outside the sensor (line 524), whether the
  recombination model fires on the first uniform draw (line 529), whether the trapping model
  fires on the second (line 537), the detrapping time computed from the third (line 542), and
  whether that time still fits into the integration time (line 543).
\<close>

definition leaves_sensor :: "'g Module \<Rightarrow> CarrierType \<Rightarrow> 'g Carrier \<Rightarrow> bool" where
  "leaves_sensor m ty c = (\<not> isWithinSensor m (mv_position (drift_diffuse m ty c)))"

definition recombination_fires :: "'g Module \<Rightarrow> CarrierType \<Rightarrow> 'g Carrier \<Rightarrow> bool" where
  "recombination_fires m ty c =
     (let mv = drift_diffuse m ty c;
          (u, g2) = uniform_distribution m (mv_generator mv)
      in recombination m ty (getDopingConcentration m (mv_position mv)) u (mv_timestep mv))"

definition trapping_fires :: "'g Module \<Rightarrow> CarrierType \<Rightarrow> 'g Carrier \<Rightarrow> bool" where
  "trapping_fires m ty c =
     (let mv = drift_diffuse m ty c;
          (u, g2) = uniform_distribution m (mv_generator mv);
          (v, g3) = uniform_distribution m g2
      in trapping m ty v (mv_timestep mv) (vnorm (mv_efield mv)))"

definition detrap_time :: "'g Module \<Rightarrow> CarrierType \<Rightarrow> 'g Carrier \<Rightarrow> real" where
  "detrap_time m ty c =
     (let mv = drift_diffuse m ty c;
          (u, g2) = uniform_distribution m (mv_generator mv);
          (v, g3) = uniform_distribution m g2;
          (w, g4) = uniform_distribution m g3
      in detrapping m ty w (vnorm (mv_efield mv)))"

definition detrapped_in_time :: "'g Module \<Rightarrow> CarrierType \<Rightarrow> real \<Rightarrow> 'g Carrier \<Rightarrow> bool" where
  "detrapped_in_time m ty initial_time c =
     (initial_time + (rk_t (runge_kutta c) + rk_h (runge_kutta c)) + detrap_time m ty c
        < integration_time m)"

text \<open>Line 490: the condition under which the loop takes another iteration.\<close>

definition in_motion :: "'g Module \<Rightarrow> real \<Rightarrow> 'g Carrier \<Rightarrow> bool" where
  "in_motion m initial_time c =
     (state c = MOTION \<and> initial_time + rk_t (runge_kutta c) < integration_time m)"

section \<open>propagate()\<close>

text \<open>
  Line 490: the loop. Nothing in the code bounds the number of iterations, so the loop is a
  partial function: \<open>None\<close> is a run that never leaves the loop. The clock of the stepper is
  added up in the reals and the filling of the line-graph buffer (lines 492-498) is left out,
  so what the model says of a single iteration and of the values returned is what the code
  does, while a result \<open>Some\<close> of the model after many iterations does not by itself show
  that the code leaves the loop: the statements below about the values a call returns take the
  return as a hypothesis, or concern a loop that ends with the iteration at hand.
\<close>

partial_function (option) propagate_loop :: "'g Module \<Rightarrow> CarrierType \<Rightarrow> real \<Rightarrow> 'g Carrier \<Rightarrow> 'g Carrier option" where
  "propagate_loop m ty initial_time c =
     (if state c = MOTION \<and> initial_time + rk_t (runge_kutta c) < integration_time m
      then propagate_loop m ty initial_time (propagate_step m ty initial_time c)
      else Some c)"

text \<open>Lines 481-489: the variables before the first iteration.\<close>

definition propagate_init :: "'g Module \<Rightarrow> Vector3d \<Rightarrow> 'g \<Rightarrow> 'g Carrier" where
  "propagate_init m pos g =
     \<lparr>position = pos, last_position = pos, efield = vzero, last_efield = vzero, last_time = 0,
      state = MOTION, gain = 1, runge_kutta = make_runge_kutta (timestep_start m) pos,
      random_generator = g\<rparr>"

text \<open>
  Lines 609-617: the state written to the line-graph entry of this carrier group, when line
  graphs are requested; \<open>None\<close> when they are not.
\<close>

definition plotted_state :: "'g Module \<Rightarrow> 'g Carrier \<Rightarrow> CarrierState option" where
  "plotted_state m c =
     (if output_linegraphs m then
        Some (if rk_t (runge_kutta c) \<ge> integration_time m
                 \<or> vz (last_position c) < - getSensorSize_z m * 0.45
              then UNKNOWN else state c)
      else None)"

text \<open>Lines 601-607: the position returned, the sensor intercept for a halted carrier.\<close>

definition final_position :: "'g Module \<Rightarrow> 'g Carrier \<Rightarrow> Vector3d" where
  "final_position m c =
     (if state c = HALTED then getSensorIntercept m (last_position c) (position c)
      else position c)"

text \<open>
  The tuple returned by \<^verbatim>\<open>propagate\<close>: final position, elapsed time, gain and state. The
  model returns with it the advanced generator and the state written to the line graph.
\<close>

record 'g Propagated =
  prop_position :: Vector3d
  prop_time :: real
  prop_gain :: real
  prop_state :: CarrierState
  prop_plotted :: "CarrierState option"
  prop_generator :: 'g

definition propagate_result :: "'g Module \<Rightarrow> 'g Carrier \<Rightarrow> 'g Propagated" where
  "propagate_result m c =
     \<lparr>prop_position = final_position m c, prop_time = rk_t (runge_kutta c), prop_gain = gain c,
      prop_state = state c, prop_plotted = plotted_state m c,
      prop_generator = random_generator c\<rparr>"

text \<open>
  \<^verbatim>\<open>propagate\<close>. Its last parameter, the charge of the group, only weights histogram entries
  and is left out.
\<close>

definition propagate :: "'g Module \<Rightarrow> Vector3d \<Rightarrow> CarrierType \<Rightarrow> real \<Rightarrow> 'g \<Rightarrow> 'g Propagated option" where
  "propagate m pos ty initial_time g =
     map_option (propagate_result m) (propagate_loop m ty initial_time (propagate_init m pos g))"

section \<open>run()\<close>

text \<open>
  What \<^verbatim>\<open>run\<close> accumulates over the deposits of an event: the output vector, the event's
  random engine, the four local counters (\<^verbatim>\<open>unsigned int\<close>, wrapping at \<open>2 ^ 32\<close>), the
  charge-weighted time, and the two members \<^verbatim>\<open>total_deposits_\<close> and
  \<^verbatim>\<open>deposits_exceeding_max_groups_\<close>. The field \<open>group_sizes\<close> is a trace of the model: the
  value of \<^verbatim>\<open>charge_per_step\<close> of every group handed to \<^verbatim>\<open>propagate\<close>, in order (the code
  keeps it only scaled by the gain, as the charge of the output record).
\<close>

record 'g Event =
  propagated_charges :: "PropagatedCharge list"
  group_sizes :: "nat list"
  random_engine :: 'g
  propagated_charges_count :: nat
  recombined_charges_count :: nat
  trapped_charges_count :: nat
  step_count :: nat
  total_time :: real
  total_deposits :: nat
  deposits_exceeding_max_groups :: nat

text \<open>
  \<^verbatim>\<open>std::lround\<close>: to the nearest integer, halfway cases away from zero, as a \<^verbatim>\<open>long\<close> of
  64 bits. Where the rounded value does not fit into a \<^verbatim>\<open>long\<close> the C++ standard leaves the
  result unspecified; the model takes it from the field \<open>lround_unspecified\<close> of the module.
\<close>

definition lround :: "'g Module \<Rightarrow> real \<Rightarrow> int" where
  "lround m v =
     (let n = (if v \<ge> 0 then \<lfloor>v + 1 / 2\<rfloor> else \<lceil>v - 1 / 2\<rceil>)
      in if - (2 ^ 63) \<le> n \<and> n < 2 ^ 63 then n else lround_unspecified m v)"

text \<open>The addition of \<^verbatim>\<open>unsigned int\<close>, for the counters that add up over the deposits.\<close>

definition uint_add :: "nat \<Rightarrow> nat \<Rightarrow> nat" where
  "uint_add a b = (a + b) mod 2 ^ 32"

text \<open>Lines 330-363: the bookkeeping after \<^verbatim>\<open>propagate\<close> has returned for a group.\<close>

definition record_group :: "'g Module \<Rightarrow> DepositedCharge \<Rightarrow> nat \<Rightarrow> 'g Propagated \<Rightarrow> 'g Event \<Rightarrow> 'g Event" where
  "record_group m deposit cps r ev =
     (let propagated_charge =
            \<lparr>pc_local_position = prop_position r,
             pc_global_position = getGlobalPosition m (prop_position r),
             pc_type = dep_type deposit,
             pc_charge = nat (lround m (real cps * prop_gain r) mod 2 ^ 32),
             pc_local_time = dep_local_time deposit + prop_time r,
             pc_global_time = dep_global_time deposit + prop_time r,
             pc_state = prop_state r,
             pc_deposit = deposit\<rparr>
      in ev\<lparr>propagated_charges := propagated_charges ev @ [propagated_charge],
            group_sizes := group_sizes ev @ [cps],
            random_engine := prop_generator r,
            recombined_charges_count :=
              (if prop_state r = RECOMBINED then uint_add (recombined_charges_count ev) cps
               else recombined_charges_count ev),
            trapped_charges_count :=
              (if prop_state r = TRAPPED then uint_add (trapped_charges_count ev) cps
               else trapped_charges_count ev),
            step_count := uint_add (step_count ev) 1,
            propagated_charges_count := uint_add (propagated_charges_count ev) cps,
            total_time := total_time ev + real cps * prop_time r\<rparr>)"

text \<open>
  Lines 305-368: the loop over the charges of one deposit. It returns when the charges are
  used up; \<open>None\<close> is a run that never does, because a call of \<^verbatim>\<open>propagate\<close> does not return
  or because the loop itself goes on for ever.
\<close>

partial_function (option) charge_loop :: "'g Module \<Rightarrow> DepositedCharge \<Rightarrow> nat \<Rightarrow> nat \<Rightarrow> 'g Event \<Rightarrow> 'g Event option" where
  "charge_loop m deposit charges_remaining cps ev =
     (if charges_remaining > 0 then
        (let cps1 = (if cps > charges_remaining then charges_remaining else cps);
             charges_remaining1 = charges_remaining - cps1
         in case propagate m (dep_local_position deposit) (dep_type deposit)
                   (dep_local_time deposit) (random_engine ev) of
              None \<Rightarrow> None
            | Some r \<Rightarrow>
                charge_loop m deposit charges_remaining1 cps1 (record_group m deposit cps1 r ev))
      else Some ev)"

text \<open>
  An integer division by zero is undefined behaviour in C++; the model stops with the fault.
\<close>

datatype fault = DivisionByZero

text \<open>
  Lines 297-304: the group size for a deposit of the given charge, and whether it was raised.
  The quotient of the two integers converted to \<^verbatim>\<open>double\<close> is taken in the reals; for 32-bit
  operands the rounded quotient has the same ceiling as the exact one.
\<close>

definition adjusted_charge_per_step :: "'g Module \<Rightarrow> nat \<Rightarrow> fault + nat \<times> bool" where
  "adjusted_charge_per_step m charge =
     (if max_charge_groups m > 0 then
        (if charge_per_step m = 0 then Inl DivisionByZero
         else if charge div charge_per_step m > max_charge_groups m
         then Inr (nat \<lceil>real charge / real (max_charge_groups m)\<rceil>, True)
         else Inr (charge_per_step m, False))
      else Inr (charge_per_step m, False))"

text \<open>Lines 272-369: one iteration of the loop over the deposits.\<close>

definition run_deposit :: "'g Module \<Rightarrow> DepositedCharge \<Rightarrow> 'g Event \<Rightarrow> (fault + 'g Event) option" where
  "run_deposit m deposit ev =
     (if (dep_type deposit = ELECTRON \<and> \<not> propagate_electrons m)
         \<or> (dep_type deposit = HOLE \<and> \<not> propagate_holes m) then Some (Inr ev)
      else if dep_local_time deposit > integration_time m then Some (Inr ev)
      else
        (case adjusted_charge_per_step m (dep_charge deposit) of
           Inl f \<Rightarrow> Some (Inl f)
         | Inr (cps, raised) \<Rightarrow>
             map_option Inr
               (charge_loop m deposit (dep_charge deposit) cps
                  (ev\<lparr>total_deposits := total_deposits ev + 1,
                      deposits_exceeding_max_groups :=
                        (if raised then deposits_exceeding_max_groups ev + 1
                         else deposits_exceeding_max_groups ev)\<rparr>))))"

text \<open>Lines 260-272: the loop over the deposits of the event, from the empty output vector.\<close>

fun run_deposits :: "'g Module \<Rightarrow> DepositedCharge list \<Rightarrow> 'g Event \<Rightarrow> (fault + 'g Event) option" where
  "run_deposits m [] ev = Some (Inr ev)"
| "run_deposits m (deposit # deposits) ev =
     (case run_deposit m deposit ev of
        None \<Rightarrow> None
      | Some (Inl f) \<Rightarrow> Some (Inl f)
      | Some (Inr ev1) \<Rightarrow> run_deposits m deposits ev1)"

text \<open>
  Lines 257-271: what \<^verbatim>\<open>run\<close> starts from. The two members live across events, so their
  values on entry are parameters; their type is declared outside the sources and they are
  counted without a bound.
\<close>

definition event_start :: "'g \<Rightarrow> nat \<Rightarrow> nat \<Rightarrow> 'g Event" where
  "event_start g deposits_so_far exceeding_so_far =
     \<lparr>propagated_charges = [], group_sizes = [], random_engine = g,
      propagated_charges_count = 0, recombined_charges_count = 0, trapped_charges_count = 0,
      step_count = 0, total_time = 0, total_deposits = deposits_so_far,
      deposits_exceeding_max_groups = exceeding_so_far\<rparr>"

text \<open>
  \<^verbatim>\<open>run\<close>, up to the end of the loop over the deposits. The result is \<open>None\<close> when the call
  never gets there, the fault when it divides by zero, and otherwise what has been accumulated;
  the output vector in it is the one dispatched at line 408.
\<close>

definition run :: "'g Module \<Rightarrow> DepositedCharge list \<Rightarrow> 'g \<Rightarrow> nat \<Rightarrow> nat \<Rightarrow> (fault + 'g Event) option" where
  "run m deposits g deposits_so_far exceeding_so_far =
     run_deposits m deposits (event_start g deposits_so_far exceeding_so_far)"

section \<open>The statements of the specification that are compared with the code\<close>

text \<open>
  The groups the specification describes for a deposit of charge \<open>C\<close> and group size \<open>S\<close>:
  groups of size \<open>S\<close> are peeled off and the last group is truncated to the remainder.
\<close>

definition peeled_groups :: "nat \<Rightarrow> nat \<Rightarrow> nat list" where
  "peeled_groups C S = replicate (C div S) S @ (if C mod S = 0 then [] else [C mod S])"

text \<open>A deposit that \<^verbatim>\<open>run\<close> does not skip (lines 274-287).\<close>

definition processed :: "'g Module \<Rightarrow> DepositedCharge \<Rightarrow> bool" where
  "processed m deposit =
     (\<not> ((dep_type deposit = ELECTRON \<and> \<not> propagate_electrons m)
          \<or> (dep_type deposit = HOLE \<and> \<not> propagate_holes m))
      \<and> \<not> dep_local_time deposit > integration_time m)"

text \<open>
  The adaptation of the step size in the words of the specification: the position is within
  two step lengths of a sensor boundary along the drift axis, the faces of the sensor being at
  plus and minus half its thickness.
\<close>

definition near_boundary_spec :: "'g Module \<Rightarrow> Vector3d \<Rightarrow> Vector3d \<Rightarrow> bool" where
  "near_boundary_spec m pos step_value =
     (\<bar>getSensorSize_z m / 2 - vz pos\<bar> < 2 * \<bar>vz step_value\<bar>
      \<or> \<bar>- (getSensorSize_z m / 2) - vz pos\<bar> < 2 * \<bar>vz step_value\<bar>)"

definition adapt_timestep_spec :: "'g Module \<Rightarrow> Vector3d \<Rightarrow> Vector3d \<Rightarrow> Vector3d \<Rightarrow> real \<Rightarrow> real" where
  "adapt_timestep_spec m pos step_value step_error timestep =
     max (timestep_min m) (min (timestep_max m)
       (if near_boundary_spec m pos step_value \<or> vnorm step_error > target_spatial_precision m
        then timestep * 0.75
        else if vnorm step_error < target_spatial_precision m / 2 then timestep * 1.5
        else timestep))"

text \<open>Every call of \<^verbatim>\<open>propagate\<close> returns.\<close>

definition propagate_returns :: "'g Module \<Rightarrow> bool" where
  "propagate_returns m = (\<forall>pos ty initial_time g. propagate m pos ty initial_time g \<noteq> None)"

section \<open>A detector and a configuration to run the code on\<close>

text \<open>
  A sensor that is the slab \<open>\<bar>z\<bar> \<le> 1\<close> with its intercept by linear interpolation onto the face
  crossed, a uniform field along \<open>-z\<close>, unit mobility, no magnetic field, all optional models set
  to "none", an Euler step as the stepper with the error estimate zero, and generators that
  count their draws, the normal one returning 0 and the uniform one 1/2.
\<close>

definition slab_intercept :: "Vector3d \<Rightarrow> Vector3d \<Rightarrow> Vector3d" where
  "slab_intercept p q =
     (let face = (if vz q > 1 then 1 else - 1);
          k = (face - vz p) / (vz q - vz p)
      in vplus p (vscale k (vplus q (vscale (- 1) p))))"

definition slab :: "nat Module" where
  "slab =
     \<lparr>boltzmann_kT = 1 / 40, timestep_min = 1 / 8, timestep_max = 1 / 2, timestep_start = 1 / 2,
      integration_time = 1, target_spatial_precision = 1 / 4, output_linegraphs = False,
      propagate_electrons = True, propagate_holes = False, charge_per_step = 10,
      max_charge_groups = 1000, has_magnetic_field = False, electron_Hall = 115 / 100,
      hole_Hall = 9 / 10,
      getElectricField = (\<lambda>p. Vector3d 0 0 (- 1)), getMagneticField = (\<lambda>p. vzero),
      getDopingConcentration = (\<lambda>p. 0), getGlobalPosition = (\<lambda>p. p),
      isWithinSensor = (\<lambda>p. \<bar>vz p\<bar> \<le> 1), getSensorIntercept = slab_intercept,
      getSensorSize_z = 2, mobility = (\<lambda>ty e d. 1), recombination = Recombination_None,
      trapping = Trapping_None, detrapping = (\<lambda>ty w e. 0), multiplication = Multiplication_None,
      rk_increment = (\<lambda>f t h y. (vscale h (f t y), vzero)),
      normal_distribution = (\<lambda>sigma g. (0, Suc g)),
      uniform_distribution = (\<lambda>g. (1 / 2, Suc g)),
      lround_unspecified = (\<lambda>v. 0)\<rparr>"

definition electrons_at :: "real \<Rightarrow> real \<Rightarrow> nat \<Rightarrow> DepositedCharge" where
  "electrons_at z_pos t n =
     \<lparr>dep_local_position = Vector3d 0 0 z_pos, dep_local_time = t, dep_global_time = t,
      dep_type = ELECTRON, dep_charge = n\<rparr>"

text \<open>The same detector in a magnetic field along \<open>y\<close>.\<close>

definition slab_B :: "nat Module" where
  "slab_B = slab\<lparr>has_magnetic_field := True, getMagneticField := (\<lambda>p. Vector3d 0 1 0)\<rparr>"

text \<open>The same detector configured with a first step size above the maximal one.\<close>

definition slab_long_start :: "nat Module" where
  "slab_long_start = slab\<lparr>timestep_start := 1\<rparr>"

text \<open>The same detector with the field reversed: electrons drift towards \<open>-z\<close>.\<close>

definition slab_reversed :: "nat Module" where
  "slab_reversed = slab\<lparr>getElectricField := (\<lambda>p. Vector3d 0 0 1)\<rparr>"

text \<open>The same detector with a recombination model that fires at every step.\<close>

definition slab_recombining :: "nat Module" where
  "slab_recombining = slab\<lparr>recombination := (\<lambda>ty doping survival_prob timestep. True)\<rparr>"

text \<open>
  The same detector with a trapping model that captures at every step and a detrapping model
  that releases after a tenth of the integration time.
\<close>

definition slab_trapping :: "nat Module" where
  "slab_trapping =
     slab\<lparr>trapping := (\<lambda>ty probability timestep efield_mag. True),
          detrapping := (\<lambda>ty probability efield_mag. 1 / 10)\<rparr>"

text \<open>The same detector configured with the group size 0 and no limit on the groups.\<close>

definition slab_empty_groups :: "nat Module" where
  "slab_empty_groups = slab\<lparr>charge_per_step := 0, max_charge_groups := 0\<rparr>"

text \<open>The same detector configured with groups of two charges and at most two groups.\<close>

definition slab_two_groups :: "nat Module" where
  "slab_two_groups = slab\<lparr>charge_per_step := 2, max_charge_groups := 2\<rparr>"

text \<open>The same detector configured with all step sizes 0: the stepper's clock stands still.\<close>

definition slab_frozen :: "nat Module" where
  "slab_frozen = slab\<lparr>timestep_min := 0, timestep_max := 0, timestep_start := 0\<rparr>"

section \<open>Vector algebra\<close>

lemma vnorm_nonneg: "0 \<le> vnorm v"
  by (cases v) (simp add: vnorm_def)

lemma vcross_vzero: "vcross v vzero = vzero"
  by (cases v) (simp add: vzero_def)

lemma vdot_vzero: "vdot v vzero = 0"
  by (cases v) (simp add: vzero_def)

lemma vscale_vzero: "vscale k vzero = vzero"
  by (simp add: vzero_def)

lemma vplus_vzero: "vplus v vzero = v"
  by (cases v) (simp add: vzero_def)

lemma vdivide_one: "vdivide v 1 = v"
  by (cases v) simp

lemma carrier_sign_square: "carrier_sign ty * carrier_sign ty = 1"
  by (cases ty) simp_all

lemma sign_twice_scalar:
  assumes "s * s = (1::real)"
  shows "s * mob * (a + s * mob * h * x + t) = s * mob * a + mob * mob * h * x + s * mob * t"
proof -
  have "s * mob * (s * mob * h * x) = (s * s) * (mob * mob * h * x)"
    by (simp add: mult_ac)
  then show ?thesis using assms by (simp add: distrib_left)
qed

lemma sign_twice_vector:
  assumes "s * s = (1::real)"
  shows "vscale (s * mob) (vplus (vplus E (vscale (s * mob * h) X)) T) =
         vplus (vplus (vscale (s * mob) E) (vscale (mob * mob * h) X)) (vscale (s * mob) T)"
  by (cases E; cases X; cases T) (simp add: sign_twice_scalar [OF assms])

section \<open>Properties of the velocity evaluators\<close>

text \<open>
  Claim C6. Without a magnetic field the velocity handed to the stepper is the electric field
  at the position scaled by the sign of the carrier type times the mobility at the field's
  magnitude and the doping there. With a magnetic field it is the expression of the
  specification, term by term, in which the sign of the carrier type multiplies the Hall term
  \<open>term1\<close> and again the whole sum; the two signs cancel on the Hall term, which therefore
  enters with the square of the mobility and no sign. Where the magnetic field is the zero
  vector, the evaluator with magnetic field returns the value of the evaluator without.
\<close>

theorem carrier_velocity_formulas:
  "(\<not> has_magnetic_field m \<longrightarrow>
      carrier_velocity m ty t p =
        vscale (carrier_sign ty
                * mobility m ty (vnorm (getElectricField m p)) (getDopingConcentration m p))
          (getElectricField m p))
   \<and> (has_magnetic_field m \<longrightarrow>
        (let E = getElectricField m p;
             B = getMagneticField m p;
             mob = mobility m ty (vnorm E) (getDopingConcentration m p);
             hallFactor = (if ty = ELECTRON then electron_Hall m else hole_Hall m);
             exb = vcross E B;
             term1 = vscale (carrier_sign ty * mob * hallFactor) exb;
             term2 = vscale (mob * mob * hallFactor * hallFactor * vdot E B) B;
             rnorm = 1 + mob * mob * hallFactor * hallFactor * vdot B B
         in carrier_velocity m ty t p
              = vdivide (vscale (carrier_sign ty * mob) (vplus (vplus E term1) term2)) rnorm
            \<and> carrier_velocity m ty t p
              = vdivide (vplus (vplus (vscale (carrier_sign ty * mob) E)
                                      (vscale (mob * mob * hallFactor) exb))
                               (vscale (carrier_sign ty * mob) term2)) rnorm))
   \<and> (getMagneticField m p = vzero \<longrightarrow>
        carrier_velocity_withB m ty t p =
          vscale (carrier_sign ty
                  * mobility m ty (vnorm (getElectricField m p)) (getDopingConcentration m p))
            (getElectricField m p))"
proof (intro conjI impI)
  assume "\<not> has_magnetic_field m"
  then show "carrier_velocity m ty t p =
        vscale (carrier_sign ty
                * mobility m ty (vnorm (getElectricField m p)) (getDopingConcentration m p))
          (getElectricField m p)"
    by (simp add: carrier_velocity_def carrier_velocity_noB_def Let_def)
next
  assume b: "has_magnetic_field m"
  have v: "carrier_velocity m ty t p = carrier_velocity_withB m ty t p"
    using b by (simp add: carrier_velocity_def)
  show "let E = getElectricField m p;
             B = getMagneticField m p;
             mob = mobility m ty (vnorm E) (getDopingConcentration m p);
             hallFactor = (if ty = ELECTRON then electron_Hall m else hole_Hall m);
             exb = vcross E B;
             term1 = vscale (carrier_sign ty * mob * hallFactor) exb;
             term2 = vscale (mob * mob * hallFactor * hallFactor * vdot E B) B;
             rnorm = 1 + mob * mob * hallFactor * hallFactor * vdot B B
         in carrier_velocity m ty t p
              = vdivide (vscale (carrier_sign ty * mob) (vplus (vplus E term1) term2)) rnorm
            \<and> carrier_velocity m ty t p
              = vdivide (vplus (vplus (vscale (carrier_sign ty * mob) E)
                                      (vscale (mob * mob * hallFactor) exb))
                               (vscale (carrier_sign ty * mob) term2)) rnorm"
    unfolding v carrier_velocity_withB_def Let_def
    by (simp only: sign_twice_vector [OF carrier_sign_square] simp_thms)
next
  assume z: "getMagneticField m p = vzero"
  show "carrier_velocity_withB m ty t p =
          vscale (carrier_sign ty
                  * mobility m ty (vnorm (getElectricField m p)) (getDopingConcentration m p))
            (getElectricField m p)"
    by (simp add: carrier_velocity_withB_def Let_def z vcross_vzero vdot_vzero vscale_vzero
        vplus_vzero vdivide_one)
qed

theorem carrier_velocity_formulas_witness:
  "carrier_velocity slab ELECTRON 0 (Vector3d 0 0 0) = Vector3d 0 0 1
   \<and> carrier_velocity slab_B ELECTRON 0 (Vector3d 0 0 0)
       = Vector3d (460 / 929) 0 (400 / 929)
   \<and> carrier_velocity_withB slab ELECTRON 0 (Vector3d 0 0 0) = Vector3d 0 0 1"
  using carrier_velocity_formulas [of slab ELECTRON 0 "Vector3d 0 0 0"]
    carrier_velocity_formulas [of slab_B ELECTRON 0 "Vector3d 0 0 0"]
  by (simp add: slab_def slab_B_def Let_def vnorm_def vzero_def)

section \<open>One iteration of the loop\<close>

lemma drift_diffuse_timestep: "mv_timestep (drift_diffuse m ty c) = rk_h (runge_kutta c)"
  by (simp add: drift_diffuse_def rk_step_def Let_def split: prod.splits)

lemma drift_diffuse_rk_t:
  "rk_t (mv_runge_kutta (drift_diffuse m ty c)) = rk_t (runge_kutta c) + rk_h (runge_kutta c)"
  by (simp add: drift_diffuse_def rk_step_def Let_def split: prod.splits)

lemma step_rk_h:
  "rk_h (runge_kutta (propagate_step m ty t0 c)) =
     adapt_timestep m (mv_position (drift_diffuse m ty c)) (mv_step_value (drift_diffuse m ty c))
       (mv_step_error (drift_diffuse m ty c)) (rk_h (runge_kutta c))"
  by (simp add: propagate_step_def trapping_check_def advanceTime_def Let_def
      drift_diffuse_timestep split: prod.splits)

lemma step_position: "position (propagate_step m ty t0 c) = mv_position (drift_diffuse m ty c)"
  by (simp add: propagate_step_def Let_def split: prod.splits)

lemma step_last_position: "last_position (propagate_step m ty t0 c) = position c"
  by (simp add: propagate_step_def Let_def split: prod.splits)

lemma step_state:
  "state (propagate_step m ty t0 c) =
     (if trapping_fires m ty c \<and> \<not> detrapped_in_time m ty t0 c then TRAPPED
      else if recombination_fires m ty c then RECOMBINED
      else if leaves_sensor m ty c then HALTED
      else state c)"
  by (simp add: propagate_step_def trapping_check_def Let_def trapping_fires_def
      detrapped_in_time_def detrap_time_def recombination_fires_def leaves_sensor_def
      drift_diffuse_rk_t split: prod.splits)

lemma step_rk_t:
  "rk_t (runge_kutta (propagate_step m ty t0 c)) =
     rk_t (runge_kutta c) + rk_h (runge_kutta c) +
       (if trapping_fires m ty c \<and> detrapped_in_time m ty t0 c then detrap_time m ty c else 0)"
  by (simp add: propagate_step_def trapping_check_def Let_def trapping_fires_def advanceTime_def
      detrapped_in_time_def detrap_time_def drift_diffuse_rk_t split: prod.splits)

lemma step_gain:
  "gain (propagate_step m ty t0 c) =
     gain c * multiplication m ty ((vnorm (mv_efield (drift_diffuse m ty c)) + vnorm (efield c)) / 2)
       (vnorm (mv_step_value (drift_diffuse m ty c)))"
  by (simp add: propagate_step_def Let_def split: prod.splits)

lemma limit_timestep_bounds:
  "timestep_min m \<le> timestep_max m \<Longrightarrow>
   timestep_min m \<le> limit_timestep m h \<and> limit_timestep m h \<le> timestep_max m"
  by (simp add: limit_timestep_def)

lemma limit_timestep_clamp:
  "timestep_min m \<le> timestep_max m \<Longrightarrow>
   limit_timestep m h = max (timestep_min m) (min (timestep_max m) h)"
  by (simp add: limit_timestep_def max_def min_def)

lemma step_rk_h_bounds:
  assumes "timestep_min m \<le> timestep_max m"
  shows "timestep_min m \<le> rk_h (runge_kutta (propagate_step m ty t0 c)) \<and>
         rk_h (runge_kutta (propagate_step m ty t0 c)) \<le> timestep_max m"
  unfolding step_rk_h adapt_timestep_def Let_def by (rule limit_timestep_bounds [OF assms])

lemmas slab_eval = slab_def propagate_init_def make_runge_kutta_def drift_diffuse_def rk_step_def
  carrier_velocity_def carrier_velocity_noB_def carrier_diffusion_def vnorm_def vzero_def
  propagate_step_def trapping_check_def advanceTime_def adapt_timestep_def limit_timestep_def
  Let_def Recombination_None_def Trapping_None_def Multiplication_None_def

section \<open>The step size\<close>

text \<open>
  Claim C7, as amended. Provided the minimal step size is not above the maximal one, the step
  size with which every step after the first is taken lies within the two limits, because the
  iteration before it has limited it. The first step is taken with \<^verbatim>\<open>timestep_start\<close> as
  configured, which the code does not limit: all steps are within the limits if
  \<^verbatim>\<open>timestep_start\<close> is.
\<close>

theorem timestep_within_limits:
  assumes "timestep_min m \<le> timestep_max m"
  shows "(\<forall>n. timestep_min m \<le> mv_timestep (drift_diffuse m ty ((propagate_step m ty t0 ^^ Suc n) c))
            \<and> mv_timestep (drift_diffuse m ty ((propagate_step m ty t0 ^^ Suc n) c)) \<le> timestep_max m)
       \<and> mv_timestep (drift_diffuse m ty (propagate_init m pos g)) = timestep_start m
       \<and> (timestep_min m \<le> timestep_start m \<and> timestep_start m \<le> timestep_max m \<longrightarrow>
            (\<forall>n. timestep_min m
                    \<le> mv_timestep (drift_diffuse m ty ((propagate_step m ty t0 ^^ n) (propagate_init m pos g)))
                \<and> mv_timestep (drift_diffuse m ty ((propagate_step m ty t0 ^^ n) (propagate_init m pos g)))
                    \<le> timestep_max m))"
proof (intro conjI allI impI)
  fix n
  let ?d = "(propagate_step m ty t0 ^^ n) c"
  have "mv_timestep (drift_diffuse m ty ((propagate_step m ty t0 ^^ Suc n) c)) =
          rk_h (runge_kutta (propagate_step m ty t0 ?d))"
    by (simp add: drift_diffuse_timestep)
  with step_rk_h_bounds [OF assms, of ty t0 ?d]
  show "timestep_min m \<le> mv_timestep (drift_diffuse m ty ((propagate_step m ty t0 ^^ Suc n) c))"
    and "mv_timestep (drift_diffuse m ty ((propagate_step m ty t0 ^^ Suc n) c)) \<le> timestep_max m"
    by simp_all
next
  show first: "mv_timestep (drift_diffuse m ty (propagate_init m pos g)) = timestep_start m"
    by (simp add: drift_diffuse_timestep propagate_init_def make_runge_kutta_def)
  fix n
  assume start: "timestep_min m \<le> timestep_start m \<and> timestep_start m \<le> timestep_max m"
  let ?h = "mv_timestep (drift_diffuse m ty ((propagate_step m ty t0 ^^ n) (propagate_init m pos g)))"
  have "timestep_min m \<le> ?h \<and> ?h \<le> timestep_max m"
  proof (cases n)
    case 0
    then show ?thesis using first start by simp
  next
    case (Suc k)
    then show ?thesis
      using step_rk_h_bounds [OF assms, of ty t0 "(propagate_step m ty t0 ^^ k) (propagate_init m pos g)"]
      by (simp add: drift_diffuse_timestep)
  qed
  then show "timestep_min m \<le> ?h" and "?h \<le> timestep_max m" by simp_all
qed

theorem timestep_within_limits_witness:
  "timestep_min slab \<le> timestep_max slab
   \<and> timestep_min slab \<le> mv_timestep (drift_diffuse slab ELECTRON
          ((propagate_step slab ELECTRON 0 ^^ Suc 0) (propagate_init slab (Vector3d 0 0 0) 0)))
   \<and> mv_timestep (drift_diffuse slab ELECTRON
          ((propagate_step slab ELECTRON 0 ^^ Suc 0) (propagate_init slab (Vector3d 0 0 0) 0)))
        \<le> timestep_max slab
   \<and> mv_timestep (drift_diffuse slab ELECTRON
          ((propagate_step slab ELECTRON 0 ^^ Suc 0) (propagate_init slab (Vector3d 0 0 0) 0))) = 3 / 8
   \<and> mv_timestep (drift_diffuse slab ELECTRON (propagate_init slab (Vector3d 0 0 0) 0))
        = timestep_start slab"
proof -
  have h: "timestep_min slab \<le> timestep_max slab" by (simp add: slab_def)
  have e: "mv_timestep (drift_diffuse slab ELECTRON
          ((propagate_step slab ELECTRON 0 ^^ Suc 0) (propagate_init slab (Vector3d 0 0 0) 0))) = 3 / 8"
    by (simp add: slab_eval)
  from timestep_within_limits [OF h, where ty = ELECTRON and ?t0.0 = 0
      and c = "propagate_init slab (Vector3d 0 0 0) 0" and pos = "Vector3d 0 0 0" and g = 0]
  show ?thesis using h e by blast
qed

theorem first_timestep_counterexample:
  "in_motion slab_long_start 0 (propagate_init slab_long_start (Vector3d 0 0 0) 0)
   \<and> timestep_min slab_long_start \<le> timestep_max slab_long_start
   \<and> \<not> mv_timestep (drift_diffuse slab_long_start ELECTRON
            (propagate_init slab_long_start (Vector3d 0 0 0) 0)) \<le> timestep_max slab_long_start"
  by (simp add: slab_long_start_def in_motion_def slab_eval)

text \<open>
  Claim C8, as amended. The step size of a step is the one the stepper held before it. After
  the step it is multiplied by 0.75 if the distance in z of the new position from the upper
  face of the sensor (at half the sensor's thickness) is less than twice the signed z component
  of the step vector, or if the norm of the error vector exceeds the target precision; it is
  multiplied by 1.5 if neither holds and the norm is below half the target precision; it is
  unchanged otherwise. The result is replaced by the maximal step size if above it, else by
  the minimal one if below it, which is the clamp to the interval when the minimal step size
  is not above the maximal one.
\<close>

theorem timestep_adaptation:
  "(let mv = drift_diffuse m ty c;
        h = rk_h (runge_kutta c);
        h1 = rk_h (runge_kutta (propagate_step m ty t0 c));
        near = (\<bar>getSensorSize_z m / 2 - vz (position (propagate_step m ty t0 c))\<bar>
                  < 2 * vz (mv_step_value mv));
        uncertainty = vnorm (mv_step_error mv)
    in mv_timestep mv = h
       \<and> (near \<or> uncertainty > target_spatial_precision m \<longrightarrow> h1 = limit_timestep m (h * 0.75))
       \<and> (\<not> near \<and> uncertainty < target_spatial_precision m / 2 \<longrightarrow> h1 = limit_timestep m (h * 1.5))
       \<and> (\<not> near \<and> target_spatial_precision m / 2 \<le> uncertainty
             \<and> uncertainty \<le> target_spatial_precision m \<longrightarrow> h1 = limit_timestep m h))
   \<and> (timestep_min m \<le> timestep_max m \<longrightarrow>
        limit_timestep m x = max (timestep_min m) (min (timestep_max m) x))"
proof -
  have nn: "0 \<le> vnorm (mv_step_error (drift_diffuse m ty c))" by (rule vnorm_nonneg)
  show ?thesis
    unfolding Let_def step_rk_h step_position drift_diffuse_timestep adapt_timestep_def
    using nn limit_timestep_clamp [of m x] by auto
qed

theorem timestep_adaptation_witness:
  "rk_h (runge_kutta (propagate_step slab ELECTRON 0 (propagate_init slab (Vector3d 0 0 0) 0)))
     = limit_timestep slab (rk_h (runge_kutta (propagate_init slab (Vector3d 0 0 0) 0)) * 0.75)
   \<and> rk_h (runge_kutta (propagate_step slab ELECTRON 0 (propagate_init slab (Vector3d 0 0 0) 0)))
     = 3 / 8
   \<and> rk_h (runge_kutta (propagate_step slab ELECTRON 0 (propagate_init slab (Vector3d 0 0 (- 9 / 10)) 0)))
     = limit_timestep slab (rk_h (runge_kutta (propagate_init slab (Vector3d 0 0 (- 9 / 10)) 0)) * 1.5)
   \<and> limit_timestep slab (3 / 4) = max (timestep_min slab) (min (timestep_max slab) (3 / 4))"
  using timestep_adaptation [of slab ELECTRON "propagate_init slab (Vector3d 0 0 0) 0" 0 "3 / 4"]
    timestep_adaptation [of slab ELECTRON "propagate_init slab (Vector3d 0 0 (- 9 / 10)) 0" 0 "3 / 4"]
  by (simp add: slab_eval)

theorem lower_face_counterexample:
  "near_boundary_spec slab_reversed
      (position (propagate_step slab_reversed ELECTRON 0
         (propagate_init slab_reversed (Vector3d 0 0 (- 2 / 5)) 0)))
      (mv_step_value (drift_diffuse slab_reversed ELECTRON
         (propagate_init slab_reversed (Vector3d 0 0 (- 2 / 5)) 0)))
   \<and> isWithinSensor slab_reversed (position (propagate_step slab_reversed ELECTRON 0
         (propagate_init slab_reversed (Vector3d 0 0 (- 2 / 5)) 0)))
   \<and> rk_h (runge_kutta (propagate_step slab_reversed ELECTRON 0
         (propagate_init slab_reversed (Vector3d 0 0 (- 2 / 5)) 0))) = 1 / 2
   \<and> adapt_timestep_spec slab_reversed
        (position (propagate_step slab_reversed ELECTRON 0
           (propagate_init slab_reversed (Vector3d 0 0 (- 2 / 5)) 0)))
        (mv_step_value (drift_diffuse slab_reversed ELECTRON
           (propagate_init slab_reversed (Vector3d 0 0 (- 2 / 5)) 0)))
        (mv_step_error (drift_diffuse slab_reversed ELECTRON
           (propagate_init slab_reversed (Vector3d 0 0 (- 2 / 5)) 0)))
        (rk_h (runge_kutta (propagate_init slab_reversed (Vector3d 0 0 (- 2 / 5)) 0))) = 3 / 8"
  by (simp add: slab_reversed_def near_boundary_spec_def adapt_timestep_spec_def slab_eval)

section \<open>The stepping loop\<close>

lemma propagate_loop_unfold:
  "propagate_loop m ty t0 c =
     (if in_motion m t0 c then propagate_loop m ty t0 (propagate_step m ty t0 c) else Some c)"
  unfolding in_motion_def by (rule propagate_loop.simps)

lemma propagate_loop_stop: "\<not> in_motion m t0 c \<Longrightarrow> propagate_loop m ty t0 c = Some c"
  by (subst propagate_loop_unfold) simp

lemma propagate_loop_continue:
  "in_motion m t0 c \<Longrightarrow> propagate_loop m ty t0 c = propagate_loop m ty t0 (propagate_step m ty t0 c)"
  by (subst propagate_loop_unfold) simp

text \<open>
  A property that holds before the loop and is kept by every iteration holds of the carrier
  the loop returns, and the condition of the loop is false there.
\<close>

lemma propagate_loop_rule:
  assumes ret: "propagate_loop m ty t0 c = Some c'"
    and init: "I c"
    and step: "\<And>d. I d \<Longrightarrow> in_motion m t0 d \<Longrightarrow> I (propagate_step m ty t0 d)"
  shows "I c' \<and> \<not> in_motion m t0 c'"
proof -
  define P where "P = (\<lambda>m1 ty1 t1 d d'.
     m1 = m \<longrightarrow> ty1 = ty \<longrightarrow> t1 = t0 \<longrightarrow> I d \<longrightarrow> I d' \<and> \<not> in_motion m t0 d')"
  have "P m ty t0 c c'"
  proof (rule propagate_loop.raw_induct [where P = P, OF _ ret])
    fix f m1 ty1 t1 d d'
    assume IH: "\<And>m2 ty2 t2 e y. f m2 ty2 t2 e = Some y \<Longrightarrow> P m2 ty2 t2 e y"
      and body: "(if state d = MOTION \<and> t1 + rk_t (runge_kutta d) < integration_time m1
                  then f m1 ty1 t1 (propagate_step m1 ty1 t1 d) else Some d) = Some d'"
    show "P m1 ty1 t1 d d'"
      unfolding P_def
    proof (intro impI)
      assume eqs: "m1 = m" "ty1 = ty" "t1 = t0" and i: "I d"
      show "I d' \<and> \<not> in_motion m t0 d'"
      proof (cases "in_motion m t0 d")
        case True
        then have "f m ty t0 (propagate_step m ty t0 d) = Some d'"
          using body eqs unfolding in_motion_def by (auto split: if_splits)
        then have "P m ty t0 (propagate_step m ty t0 d) d'" by (rule IH)
        moreover have "I (propagate_step m ty t0 d)" using step [OF i True] .
        ultimately show ?thesis unfolding P_def by simp
      next
        case False
        then have "d' = d" using body eqs unfolding in_motion_def by (auto split: if_splits)
        with i False show ?thesis by simp
      qed
    qed
  qed
  with init show ?thesis unfolding P_def by simp
qed

text \<open>
  With a positive minimal step size below the maximal one, and detrapping times that are not
  negative, the clock of the stepper gains at least the minimal step size in every iteration
  after the first, so the loop of the model is left. This is a fact of the model only, whose
  clock adds exactly: the clock of the code is a \<^verbatim>\<open>double\<close>, on which a small step size can
  be absorbed, and with line graphs requested the code fills the point buffer inside the loop.
  It is used only to run the model on the detector defined above from its centre, where all
  step sizes, times and positions are dyadic fractions, which a \<^verbatim>\<open>double\<close> adds exactly.
\<close>

lemma step_rk_t_lower:
  assumes "\<And>d. trapping_fires m ty d \<Longrightarrow> 0 \<le> detrap_time m ty d"
  shows "rk_t (runge_kutta c) + rk_h (runge_kutta c) \<le> rk_t (runge_kutta (propagate_step m ty t0 c))"
  using assms [of c] by (simp add: step_rk_t)

lemma propagate_loop_returns_bounded:
  assumes pos: "0 < timestep_min m" and le: "timestep_min m \<le> timestep_max m"
    and detrap: "\<And>d. trapping_fires m ty d \<Longrightarrow> 0 \<le> detrap_time m ty d"
  shows "timestep_min m \<le> rk_h (runge_kutta c) \<Longrightarrow> \<exists>c'. propagate_loop m ty t0 c = Some c'"
proof (induction "nat \<lceil>(integration_time m - t0 - rk_t (runge_kutta c)) / timestep_min m\<rceil>"
    arbitrary: c rule: less_induct)
  case less
  show ?case
  proof (cases "in_motion m t0 c")
    case False
    then show ?thesis by (simp add: propagate_loop_stop)
  next
    case True
    let ?d = "propagate_step m ty t0 c"
    let ?x = "(integration_time m - t0 - rk_t (runge_kutta c)) / timestep_min m"
    let ?y = "(integration_time m - t0 - rk_t (runge_kutta ?d)) / timestep_min m"
    have t: "rk_t (runge_kutta c) + timestep_min m \<le> rk_t (runge_kutta ?d)"
      using step_rk_t_lower [of m ty c t0, OF detrap] less.prems by linarith
    have xpos: "0 < ?x" using True pos by (simp add: in_motion_def)
    have "?y \<le> ?x - 1"
    proof -
      have "integration_time m - t0 - rk_t (runge_kutta ?d)
              \<le> (integration_time m - t0 - rk_t (runge_kutta c)) - timestep_min m"
        using t by linarith
      then have "?y \<le> ((integration_time m - t0 - rk_t (runge_kutta c)) - timestep_min m) / timestep_min m"
        using pos by (simp add: divide_right_mono)
      also have "\<dots> = ?x - 1" using pos by (simp add: diff_divide_distrib)
      finally show ?thesis .
    qed
    then have "\<lceil>?y\<rceil> \<le> \<lceil>?x\<rceil> - 1" by (metis ceiling_diff_one ceiling_mono)
    moreover have "0 < \<lceil>?x\<rceil>" using xpos by simp
    ultimately have dec: "nat \<lceil>?y\<rceil> < nat \<lceil>?x\<rceil>" by linarith
    have h: "timestep_min m \<le> rk_h (runge_kutta ?d)" using step_rk_h_bounds [OF le] by blast
    from less.hyps [OF dec h] obtain c' where "propagate_loop m ty t0 ?d = Some c'" by blast
    then show ?thesis using True by (simp add: propagate_loop_continue)
  qed
qed

lemma propagate_loop_returns:
  assumes pos: "0 < timestep_min m" and le: "timestep_min m \<le> timestep_max m"
    and detrap: "\<And>d. trapping_fires m ty d \<Longrightarrow> 0 \<le> detrap_time m ty d"
  shows "\<exists>c'. propagate_loop m ty t0 c = Some c'"
proof (cases "in_motion m t0 c")
  case False
  then show ?thesis by (simp add: propagate_loop_stop)
next
  case True
  have "timestep_min m \<le> rk_h (runge_kutta (propagate_step m ty t0 c))"
    using step_rk_h_bounds [OF le] by blast
  from propagate_loop_returns_bounded [OF pos le detrap this]
  obtain c' where "propagate_loop m ty t0 (propagate_step m ty t0 c) = Some c'" by blast
  then show ?thesis using True by (simp add: propagate_loop_continue)
qed

lemma propagate_Some:
  "propagate m pos ty t0 g = Some r \<longleftrightarrow>
     (\<exists>c. propagate_loop m ty t0 (propagate_init m pos g) = Some c \<and> r = propagate_result m c)"
  by (auto simp: propagate_def)

lemma models_none_tests:
  assumes "recombination m = Recombination_None" and "trapping m = Trapping_None"
  shows "\<not> recombination_fires m ty c" and "\<not> trapping_fires m ty c"
  using assms
  by (simp_all add: recombination_fires_def trapping_fires_def Recombination_None_def
      Trapping_None_def Let_def split: prod.splits)

text \<open>
  Claim C3, as amended. With the recombination, trapping and multiplication models "none",
  every call of \<^verbatim>\<open>propagate\<close> that returns does so with the gain 1 and with the state HALTED
  or MOTION, the latter only when the local time has reached the integration time, whatever
  the initial position, the carrier type, the initial time and the random generator. That the
  call returns is a hypothesis of the statement.
\<close>

theorem propagate_with_models_none:
  assumes rec: "recombination m = Recombination_None"
    and trap: "trapping m = Trapping_None"
    and mult: "multiplication m = Multiplication_None"
    and ret: "propagate m pos ty t0 g = Some r"
  shows "prop_gain r = 1
       \<and> (prop_state r = HALTED
           \<or> prop_state r = MOTION \<and> integration_time m \<le> t0 + prop_time r)"
proof -
  from ret obtain c where loop: "propagate_loop m ty t0 (propagate_init m pos g) = Some c"
    and r: "r = propagate_result m c"
    by (auto simp: propagate_Some)
  let ?I = "\<lambda>d. gain d = 1 \<and> (state d = MOTION \<or> state d = HALTED)"
  have "?I c \<and> \<not> in_motion m t0 c"
  proof (rule propagate_loop_rule [OF loop])
    show "?I (propagate_init m pos g)" by (simp add: propagate_init_def)
  next
    fix d
    assume "?I d" and "in_motion m t0 d"
    then show "?I (propagate_step m ty t0 d)"
      by (simp add: step_gain step_state models_none_tests [OF rec trap] mult
          Multiplication_None_def)
  qed
  then show ?thesis
    unfolding r by (auto simp: propagate_result_def in_motion_def)
qed

lemma slab_loop_from_centre:
  "propagate_loop slab ELECTRON 0 (propagate_init slab (Vector3d 0 0 0) 0) =
     Some \<lparr>position = Vector3d 0 0 (37 / 32), last_position = Vector3d 0 0 (7 / 8),
           efield = Vector3d 0 0 (- 1), last_efield = Vector3d 0 0 (- 1), last_time = 7 / 8,
           state = HALTED, gain = 1,
           runge_kutta = \<lparr>rk_y = Vector3d 0 0 (37 / 32), rk_t = 37 / 32, rk_h = 27 / 128\<rparr>,
           random_generator = 15\<rparr>"
  by (simp add: slab_eval propagate_loop.simps eval_nat_numeral)

lemma slab_propagate_from_centre:
  "propagate slab (Vector3d 0 0 0) ELECTRON 0 0 =
     Some \<lparr>prop_position = Vector3d 0 0 1, prop_time = 37 / 32, prop_gain = 1,
           prop_state = HALTED, prop_plotted = None, prop_generator = 15\<rparr>"
  by (simp add: propagate_def slab_loop_from_centre propagate_result_def final_position_def
      plotted_state_def slab_intercept_def) (simp add: slab_def slab_intercept_def)

theorem propagate_with_models_none_witness:
  "recombination slab = Recombination_None \<and> trapping slab = Trapping_None
   \<and> multiplication slab = Multiplication_None
   \<and> map_option prop_gain (propagate slab (Vector3d 0 0 0) ELECTRON 0 0) = Some 1
   \<and> map_option prop_state (propagate slab (Vector3d 0 0 0) ELECTRON 0 0) = Some HALTED"
proof -
  have m: "recombination slab = Recombination_None" "trapping slab = Trapping_None"
    "multiplication slab = Multiplication_None"
    by (simp_all add: slab_def)
  from propagate_with_models_none [OF m slab_propagate_from_centre] m
  show ?thesis by (simp add: slab_propagate_from_centre)
qed

theorem models_none_counterexample:
  "recombination slab = Recombination_None \<and> trapping slab = Trapping_None
   \<and> multiplication slab = Multiplication_None
   \<and> map_option (\<lambda>r. (prop_state r, prop_gain r, prop_position r, prop_time r))
        (propagate slab (Vector3d 0 0 (- 9 / 10)) ELECTRON 0 0)
       = Some (MOTION, 1, Vector3d 0 0 (1 / 10), 1)"
  by (simp add: propagate_def propagate_result_def final_position_def slab_eval
      propagate_loop.simps)

section \<open>The state and the position returned\<close>

lemma step_state_cases:
  "state (propagate_step m ty t0 c) = state c \<or> state (propagate_step m ty t0 c) = TRAPPED
   \<or> state (propagate_step m ty t0 c) = RECOMBINED \<or> state (propagate_step m ty t0 c) = HALTED"
  by (simp add: step_state)

lemma record_group_last:
  "last (propagated_charges (record_group m d cps r ev)) =
     \<lparr>pc_local_position = prop_position r,
      pc_global_position = getGlobalPosition m (prop_position r),
      pc_type = dep_type d,
      pc_charge = nat (lround m (real cps * prop_gain r) mod 2 ^ 32),
      pc_local_time = dep_local_time d + prop_time r,
      pc_global_time = dep_global_time d + prop_time r,
      pc_state = prop_state r,
      pc_deposit = d\<rparr>"
  by (simp add: record_group_def Let_def)

text \<open>
  Claim C4, as amended. The state returned by \<^verbatim>\<open>propagate\<close>, which is the state stored in the
  output record of the group, is never UNKNOWN. For a carrier group whose loop ends without
  the state HALTED, RECOMBINED or TRAPPED, it is MOTION, and the local time has then reached
  the integration time. UNKNOWN is written only to the line-graph entry of the group, and
  only when line graphs are requested.
\<close>

theorem returned_state_never_unknown:
  assumes "propagate m pos ty t0 g = Some r"
  shows "prop_state r \<noteq> UNKNOWN
       \<and> (prop_state r \<noteq> HALTED \<and> prop_state r \<noteq> RECOMBINED \<and> prop_state r \<noteq> TRAPPED \<longrightarrow>
            prop_state r = MOTION \<and> integration_time m \<le> t0 + prop_time r)
       \<and> pc_state (last (propagated_charges (record_group m d cps r ev))) = prop_state r
       \<and> (prop_plotted r = Some UNKNOWN \<longrightarrow> output_linegraphs m)
       \<and> (\<not> output_linegraphs m \<longrightarrow> prop_plotted r = None)"
proof -
  from assms obtain c where loop: "propagate_loop m ty t0 (propagate_init m pos g) = Some c"
    and r: "r = propagate_result m c"
    by (auto simp: propagate_Some)
  have "state c \<noteq> UNKNOWN \<and> \<not> in_motion m t0 c"
  proof (rule propagate_loop_rule [OF loop])
    show "state (propagate_init m pos g) \<noteq> UNKNOWN" by (simp add: propagate_init_def)
  next
    fix d
    assume "state d \<noteq> UNKNOWN" and "in_motion m t0 d"
    then show "state (propagate_step m ty t0 d) \<noteq> UNKNOWN"
      using step_state_cases [of m ty t0 d] by auto
  qed
  then have s: "prop_state r \<noteq> UNKNOWN"
    and t: "prop_state r = MOTION \<Longrightarrow> integration_time m \<le> t0 + prop_time r"
    unfolding r by (auto simp: propagate_result_def in_motion_def)
  have m: "prop_state r \<noteq> HALTED \<and> prop_state r \<noteq> RECOMBINED \<and> prop_state r \<noteq> TRAPPED \<longrightarrow>
            prop_state r = MOTION"
    using s by (cases "prop_state r") simp_all
  have p: "(prop_plotted r = Some UNKNOWN \<longrightarrow> output_linegraphs m)
           \<and> (\<not> output_linegraphs m \<longrightarrow> prop_plotted r = None)"
    unfolding r by (simp add: propagate_result_def plotted_state_def)
  show ?thesis using s t m p by (simp add: record_group_last)
qed

lemma slab_loop_from_below:
  "propagate_loop slab ELECTRON 0 (propagate_init slab (Vector3d 0 0 (- (9 / 10))) 0) =
     Some \<lparr>position = Vector3d 0 0 (1 / 10), last_position = Vector3d 0 0 (- (2 / 5)),
           efield = Vector3d 0 0 (- 1), last_efield = Vector3d 0 0 (- 1), last_time = 1 / 2,
           state = MOTION, gain = 1,
           runge_kutta = \<lparr>rk_y = Vector3d 0 0 (1 / 10), rk_t = 1, rk_h = 3 / 8\<rparr>,
           random_generator = 10\<rparr>"
  by (simp add: slab_eval propagate_loop.simps eval_nat_numeral)

lemma slab_propagate_from_below:
  "propagate slab (Vector3d 0 0 (- (9 / 10))) ELECTRON 0 0 =
     Some \<lparr>prop_position = Vector3d 0 0 (1 / 10), prop_time = 1, prop_gain = 1,
           prop_state = MOTION, prop_plotted = None, prop_generator = 10\<rparr>"
  by (simp add: propagate_def slab_loop_from_below propagate_result_def final_position_def
      plotted_state_def) (simp add: slab_def)

theorem returned_state_never_unknown_witness:
  "map_option prop_state (propagate slab (Vector3d 0 0 (- (9 / 10))) ELECTRON 0 0) = Some MOTION
   \<and> integration_time slab
        \<le> 0 + prop_time (the (propagate slab (Vector3d 0 0 (- (9 / 10))) ELECTRON 0 0))
   \<and> pc_state (last (propagated_charges
        (record_group slab (electrons_at (- (9 / 10)) 0 1) 1
           (the (propagate slab (Vector3d 0 0 (- (9 / 10))) ELECTRON 0 0)) (event_start 0 0 0))))
       = MOTION
   \<and> prop_plotted (the (propagate slab (Vector3d 0 0 (- (9 / 10))) ELECTRON 0 0)) = None"
  using returned_state_never_unknown [OF slab_propagate_from_below,
      of "electrons_at (- (9 / 10)) 0 1" 1 "event_start 0 0 0"]
  by (simp add: slab_propagate_from_below)

theorem output_record_in_motion_counterexample:
  "map_option (map_sum id (\<lambda>ev. map pc_state (propagated_charges ev)))
     (run slab [electrons_at (- (9 / 10)) 0 1] 0 0 0) = Some (Inr [MOTION])"
proof -
  have "charge_per_step slab = 10" "max_charge_groups slab = 1000" "propagate_electrons slab"
    "integration_time slab = 1"
    by (simp_all add: slab_def)
  then show ?thesis
    by (simp add: run_def event_start_def run_deposit_def adjusted_charge_per_step_def
        electrons_at_def record_group_def slab_propagate_from_below charge_loop.simps)
qed

lemma propagate_loop_last_step:
  assumes "in_motion m t0 c" and "state (propagate_step m ty t0 c) \<noteq> MOTION"
  shows "propagate_loop m ty t0 c = Some (propagate_step m ty t0 c)"
  using assms by (simp add: propagate_loop_continue propagate_loop_stop in_motion_def)

text \<open>
  Claim C5, as amended. For a carrier group deposited inside the sensor: when the loop of
  \<^verbatim>\<open>propagate\<close> ends in the state HALTED, the position before the last step is inside
  the sensor, the position after it is outside, and \<^verbatim>\<open>propagate\<close> returns HALTED with the
  value of \<^verbatim>\<open>getSensorIntercept\<close> at these two positions. A step that leaves the sensor ends
  the loop in the state HALTED provided that in the same step the recombination test does not
  fire and the trapping test does not leave the carrier trapped. Whatever
  \<^verbatim>\<open>getSensorIntercept\<close> guarantees of its result for a first argument inside and a second
  argument outside the sensor holds of the position returned for a halted carrier.
\<close>

theorem halted_carrier_at_intercept:
  assumes inside: "isWithinSensor m pos"
    and loop: "propagate_loop m ty t0 (propagate_init m pos g) = Some c"
  shows "propagate m pos ty t0 g = Some (propagate_result m c)
       \<and> (state c = HALTED \<longrightarrow>
            isWithinSensor m (last_position c) \<and> \<not> isWithinSensor m (position c)
            \<and> prop_state (propagate_result m c) = HALTED
            \<and> prop_position (propagate_result m c)
                = getSensorIntercept m (last_position c) (position c))
       \<and> (\<forall>d. in_motion m t0 d \<and> leaves_sensor m ty d \<and> \<not> recombination_fires m ty d
               \<and> \<not> (trapping_fires m ty d \<and> \<not> detrapped_in_time m ty t0 d) \<longrightarrow>
             propagate_loop m ty t0 d = Some (propagate_step m ty t0 d)
             \<and> state (propagate_step m ty t0 d) = HALTED)
       \<and> ((\<forall>p q. isWithinSensor m p \<and> \<not> isWithinSensor m q \<longrightarrow> Q p q (getSensorIntercept m p q))
            \<and> state c = HALTED \<longrightarrow>
            Q (last_position c) (position c) (prop_position (propagate_result m c)))"
proof (intro conjI allI impI)
  show "propagate m pos ty t0 g = Some (propagate_result m c)"
    by (simp add: propagate_def loop)
next
  let ?I = "\<lambda>d. (state d = MOTION \<longrightarrow> isWithinSensor m (position d))
               \<and> (state d = HALTED \<longrightarrow> isWithinSensor m (last_position d)
                                        \<and> \<not> isWithinSensor m (position d))"
  have inv: "?I c \<and> \<not> in_motion m t0 c"
  proof (rule propagate_loop_rule [OF loop])
    show "?I (propagate_init m pos g)" using inside by (simp add: propagate_init_def)
  next
    fix d
    assume "?I d" and "in_motion m t0 d"
    then have "isWithinSensor m (position d)" and "state d = MOTION"
      by (simp_all add: in_motion_def)
    then show "?I (propagate_step m ty t0 d)"
      by (simp add: step_state step_position step_last_position leaves_sensor_def)
  qed
  {
    assume h: "state c = HALTED"
    with inv show "isWithinSensor m (last_position c)" and "\<not> isWithinSensor m (position c)"
      by simp_all
    from h show "prop_state (propagate_result m c) = HALTED"
      by (simp add: propagate_result_def)
    from h show "prop_position (propagate_result m c)
                  = getSensorIntercept m (last_position c) (position c)"
      by (simp add: propagate_result_def final_position_def)
  }
  assume q: "(\<forall>p q. isWithinSensor m p \<and> \<not> isWithinSensor m q \<longrightarrow> Q p q (getSensorIntercept m p q))
            \<and> state c = HALTED"
  with inv have "Q (last_position c) (position c)
                   (getSensorIntercept m (last_position c) (position c))"
    by simp
  with q show "Q (last_position c) (position c) (prop_position (propagate_result m c))"
    by (simp add: propagate_result_def final_position_def)
next
  fix d
  assume a: "in_motion m t0 d \<and> leaves_sensor m ty d \<and> \<not> recombination_fires m ty d
               \<and> \<not> (trapping_fires m ty d \<and> \<not> detrapped_in_time m ty t0 d)"
  then have s: "state (propagate_step m ty t0 d) = HALTED" by (simp add: step_state)
  then show "state (propagate_step m ty t0 d) = HALTED" .
  from a s show "propagate_loop m ty t0 d = Some (propagate_step m ty t0 d)"
    by (simp add: propagate_loop_last_step)
qed

lemma slab_intercept_on_face:
  assumes "\<bar>vz p\<bar> \<le> 1" and "\<not> \<bar>vz q\<bar> \<le> 1"
  shows "\<bar>vz (slab_intercept p q)\<bar> = 1
       \<and> (vz p \<le> vz (slab_intercept p q) \<and> vz (slab_intercept p q) < vz q
           \<or> vz q < vz (slab_intercept p q) \<and> vz (slab_intercept p q) \<le> vz p)"
proof -
  obtain a b pz where p: "p = Vector3d a b pz" by (cases p)
  obtain d e qz where q: "q = Vector3d d e qz" by (cases q)
  from assms have ne: "qz - pz \<noteq> 0" unfolding p q by auto
  have "vz (slab_intercept p q) = pz + ((if qz > 1 then 1 else - 1) - pz) / (qz - pz) * (qz - pz)"
    unfolding p q by (simp add: slab_intercept_def Let_def)
  also have "\<dots> = (if qz > 1 then 1 else - 1)" using ne by simp
  finally have z: "vz (slab_intercept p q) = (if qz > 1 then 1 else - 1)" .
  from assms show ?thesis unfolding z unfolding p q by auto
qed

theorem halted_carrier_at_intercept_witness:
  "isWithinSensor slab (Vector3d 0 0 0)
   \<and> propagate slab (Vector3d 0 0 0) ELECTRON 0 0 =
       Some \<lparr>prop_position = Vector3d 0 0 1, prop_time = 37 / 32, prop_gain = 1,
             prop_state = HALTED, prop_plotted = None, prop_generator = 15\<rparr>
   \<and> in_motion slab 0 (propagate_init slab (Vector3d 0 0 (9 / 10)) 0)
   \<and> leaves_sensor slab ELECTRON (propagate_init slab (Vector3d 0 0 (9 / 10)) 0)
   \<and> state (propagate_step slab ELECTRON 0 (propagate_init slab (Vector3d 0 0 (9 / 10)) 0)) = HALTED
   \<and> \<bar>vz (prop_position (the (propagate slab (Vector3d 0 0 0) ELECTRON 0 0)))\<bar> = 1"
proof -
  let ?Q = "\<lambda>p q r. \<bar>vz r\<bar> = 1 \<and> (vz p \<le> vz r \<and> vz r < vz q \<or> vz q < vz r \<and> vz r \<le> vz p)"
  have i: "isWithinSensor slab (Vector3d 0 0 0)" by (simp add: slab_def)
  have a: "in_motion slab 0 (propagate_init slab (Vector3d 0 0 (9 / 10)) 0)"
    "leaves_sensor slab ELECTRON (propagate_init slab (Vector3d 0 0 (9 / 10)) 0)"
    "\<not> recombination_fires slab ELECTRON (propagate_init slab (Vector3d 0 0 (9 / 10)) 0)"
    "\<not> trapping_fires slab ELECTRON (propagate_init slab (Vector3d 0 0 (9 / 10)) 0)"
    by (simp_all add: in_motion_def leaves_sensor_def recombination_fires_def trapping_fires_def
        slab_eval)
  have f: "\<forall>p q. isWithinSensor slab p \<and> \<not> isWithinSensor slab q \<longrightarrow>
             ?Q p q (getSensorIntercept slab p q)"
    using slab_intercept_on_face by (simp add: slab_def)
  note t = halted_carrier_at_intercept [OF i slab_loop_from_centre, where Q = ?Q]
  from t have e: "propagate slab (Vector3d 0 0 0) ELECTRON 0 0 =
       Some \<lparr>prop_position = Vector3d 0 0 1, prop_time = 37 / 32, prop_gain = 1,
             prop_state = HALTED, prop_plotted = None, prop_generator = 15\<rparr>"
    by (simp add: propagate_result_def final_position_def plotted_state_def slab_intercept_def)
      (simp add: slab_def slab_intercept_def)
  from t a have s: "state (propagate_step slab ELECTRON 0
      (propagate_init slab (Vector3d 0 0 (9 / 10)) 0)) = HALTED"
    by blast
  from t f have "\<bar>vz (prop_position (propagate_result slab
       \<lparr>position = Vector3d 0 0 (37 / 32), last_position = Vector3d 0 0 (7 / 8),
           efield = Vector3d 0 0 (- 1), last_efield = Vector3d 0 0 (- 1), last_time = 7 / 8,
           state = HALTED, gain = 1,
           runge_kutta = \<lparr>rk_y = Vector3d 0 0 (37 / 32), rk_t = 37 / 32, rk_h = 27 / 128\<rparr>,
           random_generator = 15\<rparr>))\<bar> = 1"
    by simp
  then have b: "\<bar>vz (prop_position (the (propagate slab (Vector3d 0 0 0) ELECTRON 0 0)))\<bar> = 1"
    by (simp add: propagate_def slab_loop_from_centre)
  from i e a s b show ?thesis by simp
qed

theorem recombined_outside_counterexample:
  "in_motion slab_recombining 0 (propagate_init slab_recombining (Vector3d 0 0 (9 / 10)) 0)
   \<and> leaves_sensor slab_recombining ELECTRON
        (propagate_init slab_recombining (Vector3d 0 0 (9 / 10)) 0)
   \<and> propagate slab_recombining (Vector3d 0 0 (9 / 10)) ELECTRON 0 0 =
       Some \<lparr>prop_position = Vector3d 0 0 (7 / 5), prop_time = 1 / 2, prop_gain = 1,
             prop_state = RECOMBINED, prop_plotted = None, prop_generator = 5\<rparr>
   \<and> \<not> isWithinSensor slab_recombining (Vector3d 0 0 (7 / 5))"
  by (simp add: slab_recombining_def in_motion_def leaves_sensor_def propagate_def
      propagate_result_def final_position_def plotted_state_def slab_eval propagate_loop.simps
      eval_nat_numeral)

text \<open>
  Claim C10, as amended. The tests of an iteration are not exclusive. For a step whose position
  after diffusion is outside the sensor: if in the same step the recombination test fires, or
  the trapping test fires with a detrapping time that does not fit into the integration time,
  then the loop ends with that step in the state TRAPPED (in the second case) or RECOMBINED
  (otherwise), the position is not replaced by the sensor intercept, and the position returned
  by \<^verbatim>\<open>propagate\<close> is the one after diffusion, outside the sensor. In every other case,
  also when the trapping test fires and the carrier is released within the integration time,
  the loop ends in the state HALTED and the sensor intercept is returned.
\<close>

theorem exit_tests_not_exclusive:
  assumes "in_motion m t0 c" and "leaves_sensor m ty c"
  shows "(recombination_fires m ty c
            \<or> (trapping_fires m ty c \<and> \<not> detrapped_in_time m ty t0 c) \<longrightarrow>
          propagate_loop m ty t0 c = Some (propagate_step m ty t0 c)
          \<and> state (propagate_step m ty t0 c)
              = (if trapping_fires m ty c \<and> \<not> detrapped_in_time m ty t0 c then TRAPPED
                 else RECOMBINED)
          \<and> prop_position (propagate_result m (propagate_step m ty t0 c))
              = mv_position (drift_diffuse m ty c)
          \<and> \<not> isWithinSensor m (prop_position (propagate_result m (propagate_step m ty t0 c))))
       \<and> (\<not> recombination_fires m ty c
            \<and> \<not> (trapping_fires m ty c \<and> \<not> detrapped_in_time m ty t0 c) \<longrightarrow>
          propagate_loop m ty t0 c = Some (propagate_step m ty t0 c)
          \<and> state (propagate_step m ty t0 c) = HALTED
          \<and> prop_position (propagate_result m (propagate_step m ty t0 c))
              = getSensorIntercept m (position c) (mv_position (drift_diffuse m ty c)))"
proof (rule conjI; rule impI)
  assume f: "recombination_fires m ty c
            \<or> (trapping_fires m ty c \<and> \<not> detrapped_in_time m ty t0 c)"
  have s: "state (propagate_step m ty t0 c)
           = (if trapping_fires m ty c \<and> \<not> detrapped_in_time m ty t0 c then TRAPPED
              else RECOMBINED)"
    using f by (auto simp: step_state)
  then have n: "state (propagate_step m ty t0 c) \<noteq> MOTION"
    and h: "state (propagate_step m ty t0 c) \<noteq> HALTED"
    by (simp_all split: if_splits)
  have p: "prop_position (propagate_result m (propagate_step m ty t0 c))
           = mv_position (drift_diffuse m ty c)"
    using h by (simp add: propagate_result_def final_position_def step_position)
  show "propagate_loop m ty t0 c = Some (propagate_step m ty t0 c)
          \<and> state (propagate_step m ty t0 c)
              = (if trapping_fires m ty c \<and> \<not> detrapped_in_time m ty t0 c then TRAPPED
                 else RECOMBINED)
          \<and> prop_position (propagate_result m (propagate_step m ty t0 c))
              = mv_position (drift_diffuse m ty c)
          \<and> \<not> isWithinSensor m (prop_position (propagate_result m (propagate_step m ty t0 c)))"
    using s p assms(2) propagate_loop_last_step [OF assms(1) n]
    by (simp add: leaves_sensor_def)
next
  assume f: "\<not> recombination_fires m ty c
            \<and> \<not> (trapping_fires m ty c \<and> \<not> detrapped_in_time m ty t0 c)"
  have s: "state (propagate_step m ty t0 c) = HALTED"
    using f assms(2) by (simp add: step_state)
  then have n: "state (propagate_step m ty t0 c) \<noteq> MOTION" by simp
  have p: "prop_position (propagate_result m (propagate_step m ty t0 c))
              = getSensorIntercept m (position c) (mv_position (drift_diffuse m ty c))"
    using s by (simp add: propagate_result_def final_position_def step_position
        step_last_position)
  show "propagate_loop m ty t0 c = Some (propagate_step m ty t0 c)
          \<and> state (propagate_step m ty t0 c) = HALTED
          \<and> prop_position (propagate_result m (propagate_step m ty t0 c))
              = getSensorIntercept m (position c) (mv_position (drift_diffuse m ty c))"
    using s p propagate_loop_last_step [OF assms(1) n] by simp
qed

theorem exit_tests_not_exclusive_witness:
  "in_motion slab_recombining 0 (propagate_init slab_recombining (Vector3d 0 0 (9 / 10)) 0)
   \<and> leaves_sensor slab_recombining ELECTRON
        (propagate_init slab_recombining (Vector3d 0 0 (9 / 10)) 0)
   \<and> recombination_fires slab_recombining ELECTRON
        (propagate_init slab_recombining (Vector3d 0 0 (9 / 10)) 0)
   \<and> state (propagate_step slab_recombining ELECTRON 0
        (propagate_init slab_recombining (Vector3d 0 0 (9 / 10)) 0)) = RECOMBINED
   \<and> prop_position (propagate_result slab_recombining (propagate_step slab_recombining ELECTRON 0
        (propagate_init slab_recombining (Vector3d 0 0 (9 / 10)) 0))) = Vector3d 0 0 (7 / 5)
   \<and> in_motion slab_trapping 0 (propagate_init slab_trapping (Vector3d 0 0 (9 / 10)) 0)
   \<and> leaves_sensor slab_trapping ELECTRON
        (propagate_init slab_trapping (Vector3d 0 0 (9 / 10)) 0)
   \<and> trapping_fires slab_trapping ELECTRON
        (propagate_init slab_trapping (Vector3d 0 0 (9 / 10)) 0)
   \<and> detrapped_in_time slab_trapping ELECTRON 0
        (propagate_init slab_trapping (Vector3d 0 0 (9 / 10)) 0)
   \<and> state (propagate_step slab_trapping ELECTRON 0
        (propagate_init slab_trapping (Vector3d 0 0 (9 / 10)) 0)) = HALTED
   \<and> prop_position (propagate_result slab_trapping (propagate_step slab_trapping ELECTRON 0
        (propagate_init slab_trapping (Vector3d 0 0 (9 / 10)) 0))) = Vector3d 0 0 1"
proof -
  let ?c = "propagate_init slab_recombining (Vector3d 0 0 (9 / 10)) 0"
  let ?d = "propagate_init slab_trapping (Vector3d 0 0 (9 / 10)) 0"
  have a: "in_motion slab_recombining 0 ?c" "leaves_sensor slab_recombining ELECTRON ?c"
    "recombination_fires slab_recombining ELECTRON ?c"
    "\<not> trapping_fires slab_recombining ELECTRON ?c"
    "mv_position (drift_diffuse slab_recombining ELECTRON ?c) = Vector3d 0 0 (7 / 5)"
    by (simp_all add: slab_recombining_def in_motion_def leaves_sensor_def
        recombination_fires_def trapping_fires_def slab_eval)
  have b: "in_motion slab_trapping 0 ?d" "leaves_sensor slab_trapping ELECTRON ?d"
    "\<not> recombination_fires slab_trapping ELECTRON ?d"
    "trapping_fires slab_trapping ELECTRON ?d"
    "detrapped_in_time slab_trapping ELECTRON 0 ?d"
    "getSensorIntercept slab_trapping (position ?d)
       (mv_position (drift_diffuse slab_trapping ELECTRON ?d)) = Vector3d 0 0 1"
    by (simp_all add: slab_trapping_def in_motion_def leaves_sensor_def
        recombination_fires_def trapping_fires_def detrapped_in_time_def detrap_time_def
        slab_intercept_def slab_eval)
  from exit_tests_not_exclusive [OF a(1) a(2)] exit_tests_not_exclusive [OF b(1) b(2)] a b
  show ?thesis by simp
qed

theorem detrapped_at_exit_counterexample:
  "in_motion slab_trapping 0 (propagate_init slab_trapping (Vector3d 0 0 (9 / 10)) 0)
   \<and> leaves_sensor slab_trapping ELECTRON
        (propagate_init slab_trapping (Vector3d 0 0 (9 / 10)) 0)
   \<and> trapping_fires slab_trapping ELECTRON
        (propagate_init slab_trapping (Vector3d 0 0 (9 / 10)) 0)
   \<and> propagate slab_trapping (Vector3d 0 0 (9 / 10)) ELECTRON 0 0 =
       Some \<lparr>prop_position = Vector3d 0 0 1, prop_time = 3 / 5, prop_gain = 1,
             prop_state = HALTED, prop_plotted = None, prop_generator = 6\<rparr>"
  by (simp add: slab_trapping_def in_motion_def leaves_sensor_def trapping_fires_def
      propagate_def propagate_result_def final_position_def plotted_state_def
      slab_intercept_def slab_eval propagate_loop.simps eval_nat_numeral)

section \<open>The loop over the charges of a deposit\<close>

lemma peeled_groups_step:
  assumes "0 < S" and "0 < C"
  shows "peeled_groups C S =
           (if S > C then C else S)
             # peeled_groups (C - (if S > C then C else S)) (if S > C then C else S)"
proof (cases "S > C")
  case True
  with assms show ?thesis by (simp add: peeled_groups_def)
next
  case False
  then have le: "S \<le> C" by simp
  then have d: "C div S = Suc ((C - S) div S)"
    using assms(1) by (simp add: le_div_geq)
  have m: "(C - S) mod S = C mod S" using le by (simp add: le_mod_geq)
  show ?thesis using False by (simp add: peeled_groups_def d m)
qed

lemma sum_list_peeled_groups: "sum_list (peeled_groups C S) = C"
  using div_mult_mod_eq [of C S]
  by (cases "C mod S = 0") (simp_all add: peeled_groups_def sum_list_replicate)

lemma length_peeled_groups:
  "length (peeled_groups C S) = C div S + (if C mod S = 0 then 0 else 1)"
  by (simp add: peeled_groups_def)

lemma peeled_groups_0: "peeled_groups 0 S = []"
  by (simp add: peeled_groups_def)

lemma record_group_fields:
  "group_sizes (record_group m d cps r ev) = group_sizes ev @ [cps]"
  "length (propagated_charges (record_group m d cps r ev)) = Suc (length (propagated_charges ev))"
  "random_engine (record_group m d cps r ev) = prop_generator r"
  "total_deposits (record_group m d cps r ev) = total_deposits ev"
  "deposits_exceeding_max_groups (record_group m d cps r ev) = deposits_exceeding_max_groups ev"
  by (simp_all add: record_group_def Let_def)

lemma charge_loop_0: "charge_loop m d 0 S ev = Some ev"
  by (subst charge_loop.simps) simp

lemma charge_loop_Suc:
  assumes "0 < C" and "propagate m (dep_local_position d) (dep_type d) (dep_local_time d)
                         (random_engine ev) = Some r"
  shows "charge_loop m d C S ev =
           charge_loop m d (C - (if S > C then C else S)) (if S > C then C else S)
             (record_group m d (if S > C then C else S) r ev)"
  using assms by (subst charge_loop.simps) (simp add: Let_def)

lemma charge_loop_groups:
  assumes ret: "propagate_returns m" and S: "0 < S"
  shows "\<exists>ev'. charge_loop m d C S ev = Some ev'
           \<and> group_sizes ev' = group_sizes ev @ peeled_groups C S
           \<and> length (propagated_charges ev')
               = length (propagated_charges ev) + length (peeled_groups C S)"
  using S
proof (induction C arbitrary: S ev rule: less_induct)
  case (less C)
  show ?case
  proof (cases "C = 0")
    case True
    then show ?thesis by (simp add: charge_loop_0 peeled_groups_0)
  next
    case False
    then have C: "0 < C" by simp
    let ?g = "if S > C then C else S"
    from ret obtain r where r: "propagate m (dep_local_position d) (dep_type d)
        (dep_local_time d) (random_engine ev) = Some r"
      unfolding propagate_returns_def by blast
    have g: "0 < ?g" using C less.prems by simp
    have dec: "C - ?g < C" using C less.prems by simp
    from less.IH [OF dec g, of "record_group m d ?g r ev"]
    obtain ev' where "charge_loop m d (C - ?g) ?g (record_group m d ?g r ev) = Some ev'"
      and "group_sizes ev' = group_sizes (record_group m d ?g r ev) @ peeled_groups (C - ?g) ?g"
      and "length (propagated_charges ev')
             = length (propagated_charges (record_group m d ?g r ev))
               + length (peeled_groups (C - ?g) ?g)"
      by blast
    then show ?thesis
      unfolding charge_loop_Suc [OF C r] peeled_groups_step [OF less.prems C]
      by (simp add: record_group_fields)
  qed
qed

text \<open>With the group size 0 the loop over the charges of a deposit is never left.\<close>

lemma charge_loop_empty_groups:
  assumes "charge_loop m d C S ev = Some ev'"
  shows "\<not> (S = 0 \<and> 0 < C)"
proof -
  define P where "P = (\<lambda>(m1::'a Module) (d1::DepositedCharge) C1 S1 (e1::'a Event) (e2::'a Event).
                        \<not> (S1 = (0::nat) \<and> 0 < (C1::nat)))"
  have "P m d C S ev ev'"
  proof (rule charge_loop.raw_induct [where P = P, OF _ assms])
    fix f m1 d1 C1 S1 e1 e2
    assume IH: "\<And>m2 d2 C2 S2 e3 y. f m2 d2 C2 S2 e3 = Some y \<Longrightarrow> P m2 d2 C2 S2 e3 y"
      and body: "(if 0 < C1
           then let cps1 = if C1 < S1 then C1 else S1; charges_remaining1 = C1 - cps1
                in case propagate m1 (dep_local_position d1) (dep_type d1) (dep_local_time d1)
                          (random_engine e1) of
                     None \<Rightarrow> None
                   | Some r \<Rightarrow> f m1 d1 charges_remaining1 cps1 (record_group m1 d1 cps1 r e1)
           else Some e1) = Some e2"
    show "P m1 d1 C1 S1 e1 e2"
      unfolding P_def
    proof
      assume a: "S1 = 0 \<and> 0 < C1"
      with body obtain r where "f m1 d1 C1 0 (record_group m1 d1 0 r e1) = Some e2"
        by (auto simp: Let_def split: option.splits)
      from IH [OF this] a show False unfolding P_def by simp
    qed
  qed
  then show ?thesis unfolding P_def .
qed

lemma charge_loop_never_returns: "0 < C \<Longrightarrow> charge_loop m d C 0 ev = None"
  using charge_loop_empty_groups [of m d C 0 ev] by (cases "charge_loop m d C 0 ev") auto

section \<open>The loop over the deposits\<close>

lemma run_deposit_skipped: "\<not> processed m d \<Longrightarrow> run_deposit m d ev = Some (Inr ev)"
  by (auto simp: processed_def run_deposit_def)

lemma adjusted_charge_per_step_positive:
  assumes "0 < charge_per_step m"
  shows "\<exists>S raised. adjusted_charge_per_step m C = Inr (S, raised) \<and> 0 < S"
proof (cases "0 < max_charge_groups m \<and> C div charge_per_step m > max_charge_groups m")
  case False
  with assms show ?thesis by (auto simp: adjusted_charge_per_step_def)
next
  case True
  then have "0 < C" by (cases "C = 0") simp_all
  with True have "0 < real C / real (max_charge_groups m)" by simp
  then have "0 < \<lceil>real C / real (max_charge_groups m)\<rceil>" by simp
  with assms True show ?thesis by (auto simp: adjusted_charge_per_step_def)
qed

lemma run_deposit_processed:
  assumes "propagate_returns m" and "0 < charge_per_step m" and "processed m d"
  shows "\<exists>ev' S raised. adjusted_charge_per_step m (dep_charge d) = Inr (S, raised)
           \<and> run_deposit m d ev = Some (Inr ev')
           \<and> group_sizes ev' = group_sizes ev @ peeled_groups (dep_charge d) S
           \<and> length (propagated_charges ev')
               = length (propagated_charges ev) + length (peeled_groups (dep_charge d) S)"
proof -
  from adjusted_charge_per_step_positive [OF assms(2), of "dep_charge d"]
  obtain S raised where a: "adjusted_charge_per_step m (dep_charge d) = Inr (S, raised)"
    and S: "0 < S"
    by blast
  let ?ev = "ev\<lparr>total_deposits := total_deposits ev + 1,
                 deposits_exceeding_max_groups :=
                   (if raised then deposits_exceeding_max_groups ev + 1
                    else deposits_exceeding_max_groups ev)\<rparr>"
  from charge_loop_groups [OF assms(1) S, of d "dep_charge d" ?ev]
  obtain ev' where "charge_loop m d (dep_charge d) S ?ev = Some ev'"
    and "group_sizes ev' = group_sizes ?ev @ peeled_groups (dep_charge d) S"
    and "length (propagated_charges ev')
           = length (propagated_charges ?ev) + length (peeled_groups (dep_charge d) S)"
    by blast
  with a assms(3) show ?thesis
    by (auto simp: run_deposit_def processed_def)
qed

lemma run_deposits_groups:
  assumes "propagate_returns m" and "0 < charge_per_step m"
  shows "\<exists>ev'. run_deposits m ds ev = Some (Inr ev')
           \<and> sum_list (group_sizes ev')
               = sum_list (group_sizes ev) + sum_list (map dep_charge (filter (processed m) ds))"
proof (induction ds arbitrary: ev)
  case Nil
  show ?case by simp
next
  case (Cons d ds)
  show ?case
  proof (cases "processed m d")
    case False
    with Cons [of ev] show ?thesis by (simp add: run_deposit_skipped)
  next
    case True
    from run_deposit_processed [OF assms True, of ev]
    obtain ev1 S where r: "run_deposit m d ev = Some (Inr ev1)"
      and g: "group_sizes ev1 = group_sizes ev @ peeled_groups (dep_charge d) S"
      by blast
    from Cons [of ev1] obtain ev' where "run_deposits m ds ev1 = Some (Inr ev')"
      and "sum_list (group_sizes ev')
             = sum_list (group_sizes ev1) + sum_list (map dep_charge (filter (processed m) ds))"
      by blast
    with r g True show ?thesis by (simp add: sum_list_peeled_groups)
  qed
qed

lemma propagate_returns_if:
  assumes "0 < timestep_min m" and "timestep_min m \<le> timestep_max m"
    and "\<And>ty d. trapping_fires m ty d \<Longrightarrow> 0 \<le> detrap_time m ty d"
  shows "propagate_returns m"
proof -
  have "propagate m pos ty t0 g \<noteq> None" for pos ty t0 g
  proof -
    from propagate_loop_returns [OF assms(1,2), of ty t0 "propagate_init m pos g"] assms(3)
    obtain c where "propagate_loop m ty t0 (propagate_init m pos g) = Some c" by blast
    then show ?thesis by (simp add: propagate_def)
  qed
  then show ?thesis unfolding propagate_returns_def by blast
qed

lemma slab_propagate_returns: "propagate_returns slab"
  by (rule propagate_returns_if)
    (simp_all add: slab_def trapping_fires_def Trapping_None_def Let_def split: prod.splits)

lemma slab_two_groups_propagate_returns: "propagate_returns slab_two_groups"
  by (rule propagate_returns_if)
    (simp_all add: slab_two_groups_def slab_def trapping_fires_def Trapping_None_def Let_def
      split: prod.splits)

lemma event_start_fields:
  "group_sizes (event_start g a b) = []" "propagated_charges (event_start g a b) = []"
  by (simp_all add: event_start_def)

text \<open>
  Claim C1, as amended. Provided every call of \<^verbatim>\<open>propagate\<close> returns: for every group
  size \<open>S\<close> of at least 1 with which the loop over the charges of a deposit is entered, the loop
  returns, having appended one output record per group, and the groups are those of the
  specification: groups of size \<open>S\<close> and a last group truncated to the remainder. Their sizes
  add up to the charge \<open>C\<close>, and for \<open>C = 0\<close> there is no group. Consequently, with a
  configured group size of at least 1, the loop of \<^verbatim>\<open>run\<close> over the deposits returns and
  the sizes of the groups it has propagated add up to the charges of the deposits it has not
  skipped.
\<close>

theorem charge_groups_sum_to_deposit:
  assumes "propagate_returns m"
  shows "(0 < S \<longrightarrow>
            (\<exists>ev'. charge_loop m d C S ev = Some ev'
               \<and> group_sizes ev' = group_sizes ev @ peeled_groups C S
               \<and> length (propagated_charges ev')
                   = length (propagated_charges ev) + length (peeled_groups C S)))
       \<and> sum_list (peeled_groups C S) = C
       \<and> charge_loop m d 0 S ev = Some ev
       \<and> (0 < charge_per_step m \<longrightarrow>
            (\<exists>ev'. run_deposits m ds ev = Some (Inr ev')
               \<and> sum_list (group_sizes ev')
                   = sum_list (group_sizes ev)
                     + sum_list (map dep_charge (filter (processed m) ds))))"
  using charge_loop_groups [OF assms, of S d C ev] run_deposits_groups [OF assms, of ds ev]
  by (simp add: sum_list_peeled_groups charge_loop_0)

theorem charge_groups_sum_to_deposit_witness:
  "propagate_returns slab \<and> 0 < charge_per_step slab
   \<and> (\<exists>ev'. charge_loop slab (electrons_at 0 0 25) 25 10 (event_start 0 0 0) = Some ev'
          \<and> group_sizes ev' = [10, 10, 5] \<and> length (propagated_charges ev') = 3)
   \<and> sum_list (peeled_groups 25 10) = 25
   \<and> (\<exists>ev'. run_deposits slab [electrons_at 0 0 25, electrons_at 0 2 7, electrons_at 0 0 0]
              (event_start 0 0 0) = Some (Inr ev')
          \<and> sum_list (group_sizes ev') = 25)"
proof -
  let ?ds = "[electrons_at 0 0 25, electrons_at 0 2 7, electrons_at 0 0 0]"
  have c: "0 < charge_per_step slab" by (simp add: slab_def)
  have s: "0 < (10::nat)" by simp
  have p: "peeled_groups 25 10 = [10, 10, 5]" by code_simp
  have f: "sum_list (map dep_charge (filter (processed slab) ?ds)) = 25"
    by (simp add: processed_def electrons_at_def slab_def)
  note t = charge_groups_sum_to_deposit [OF slab_propagate_returns, of 10 "electrons_at 0 0 25" 25
      "event_start 0 0 0" ?ds]
  note t1 = t [THEN conjunct1, THEN mp, OF s]
  note t2 = t [THEN conjunct2, THEN conjunct1]
  note t4 = t [THEN conjunct2, THEN conjunct2, THEN conjunct2, THEN mp, OF c]
  from t1 have a: "\<exists>ev'. charge_loop slab (electrons_at 0 0 25) 25 10 (event_start 0 0 0) = Some ev'
      \<and> group_sizes ev' = [10, 10, 5] \<and> length (propagated_charges ev') = 3"
    by (auto simp: p event_start_fields)
  from t2 have b: "sum_list (peeled_groups 25 10) = 25" .
  from t4 have d: "\<exists>ev'. run_deposits slab ?ds (event_start 0 0 0) = Some (Inr ev')
      \<and> sum_list (group_sizes ev') = 25"
    unfolding f by (simp add: event_start_fields)
  from slab_propagate_returns c a b d show ?thesis by simp
qed

text \<open>
  A loop whose condition follows from a property that every iteration keeps is never left.
\<close>

lemma propagate_loop_never_returns:
  assumes "I c" and "\<And>d. I d \<Longrightarrow> in_motion m t0 d \<and> I (propagate_step m ty t0 d)"
  shows "propagate_loop m ty t0 c = None"
proof (rule ccontr)
  assume "propagate_loop m ty t0 c \<noteq> None"
  then obtain c' where r: "propagate_loop m ty t0 c = Some c'" by blast
  have "I c' \<and> \<not> in_motion m t0 c'"
    by (rule propagate_loop_rule [where I = I, OF r assms(1)]) (simp add: assms(2))
  with assms(2) show False by blast
qed

lemma slab_frozen_never_returns:
  "propagate slab_frozen (Vector3d 0 0 0) ELECTRON 0 g = None"
proof -
  let ?I = "\<lambda>d::nat Carrier. state d = MOTION \<and> rk_t (runge_kutta d) = 0
              \<and> rk_h (runge_kutta d) = 0 \<and> rk_y (runge_kutta d) = Vector3d 0 0 0"
  have "propagate_loop slab_frozen ELECTRON 0 (propagate_init slab_frozen (Vector3d 0 0 0) g) = None"
  proof (rule propagate_loop_never_returns [where I = ?I])
    show "?I (propagate_init slab_frozen (Vector3d 0 0 0) g)"
      by (simp add: slab_frozen_def slab_eval)
  next
    fix d :: "nat Carrier"
    assume "?I d"
    then show "in_motion slab_frozen 0 d \<and> ?I (propagate_step slab_frozen ELECTRON 0 d)"
      by (simp add: slab_frozen_def in_motion_def slab_eval)
  qed
  then show ?thesis by (simp add: propagate_def)
qed

lemma charge_loop_blocked:
  assumes "0 < C"
    and "propagate m (dep_local_position d) (dep_type d) (dep_local_time d) (random_engine ev) = None"
  shows "charge_loop m d C S ev = None"
  using assms by (subst charge_loop.simps) (simp add: Let_def)

theorem empty_groups_counterexample:
  "run slab_empty_groups [electrons_at 0 0 1] 0 0 0 = None
   \<and> run slab_frozen [electrons_at 0 0 1] 0 0 0 = None"
proof -
  have e: "charge_per_step slab_empty_groups = 0" "max_charge_groups slab_empty_groups = 0"
    "propagate_electrons slab_empty_groups" "integration_time slab_empty_groups = 1"
    by (simp_all add: slab_empty_groups_def slab_def)
  have f: "charge_per_step slab_frozen = 10" "max_charge_groups slab_frozen = 1000"
    "propagate_electrons slab_frozen" "integration_time slab_frozen = 1"
    by (simp_all add: slab_frozen_def slab_def)
  have "run slab_empty_groups [electrons_at 0 0 1] 0 0 0 = None"
    using e
    by (simp add: run_def run_deposit_def adjusted_charge_per_step_def electrons_at_def
        charge_loop_never_returns)
  moreover have "run slab_frozen [electrons_at 0 0 1] 0 0 0 = None"
    using f
    by (simp add: run_def run_deposit_def adjusted_charge_per_step_def electrons_at_def
        charge_loop_blocked slab_frozen_never_returns)
  ultimately show ?thesis by simp
qed

section \<open>The limit on the number of groups\<close>

lemma raised_groups_within_limit:
  assumes "adjusted_charge_per_step m C = Inr (S, True)"
  shows "S = nat \<lceil>real C / real (max_charge_groups m)\<rceil>
       \<and> length (peeled_groups C S) \<le> max_charge_groups m"
proof -
  let ?M = "max_charge_groups m"
  from assms have M: "0 < ?M" and S: "S = nat \<lceil>real C / real ?M\<rceil>"
    by (auto simp: adjusted_charge_per_step_def split: if_splits)
  have "real C / real ?M \<le> real_of_int \<lceil>real C / real ?M\<rceil>" by (rule le_of_int_ceiling)
  also have "\<dots> \<le> real S" unfolding S by simp
  finally have "real C \<le> real S * real ?M" using M by (simp add: divide_le_eq)
  then have le: "C \<le> S * ?M" by (metis of_nat_le_iff of_nat_mult)
  show ?thesis
  proof (cases "C mod S = 0")
    case True
    have "C div S \<le> (S * ?M) div S" using le by (rule div_le_mono)
    also have "\<dots> \<le> ?M" by (cases "S = 0") simp_all
    finally show ?thesis using True S by (simp add: length_peeled_groups)
  next
    case False
    then have "0 < C" by (cases "C = 0") simp_all
    then have "0 < real C / real ?M" using M by simp
    then have "0 < \<lceil>real C / real ?M\<rceil>" by simp
    then have "S \<noteq> 0" unfolding S by simp
    from False have "C \<noteq> S * ?M" by auto
    with le have "C < ?M * S" by (simp add: mult.commute)
    then have "C div S < ?M" using \<open>S \<noteq> 0\<close> by (simp add: div_less_iff_less_mult)
    then show ?thesis using False S by (simp add: length_peeled_groups)
  qed
qed

lemma groups_one_above_limit:
  assumes "adjusted_charge_per_step m C = Inr (S, False)" and "0 < max_charge_groups m"
  shows "S = charge_per_step m \<and> length (peeled_groups C S) \<le> max_charge_groups m + 1"
  using assms by (auto simp: adjusted_charge_per_step_def length_peeled_groups split: if_splits)

text \<open>
  Claim C2, evaluated where the code departs from it. With groups of 2 and at most 2 groups,
  a deposit of 5 charges is not over the limit for the test of the code (5 / 2 = 2 in integer
  division), the group size stays 2, and three groups are propagated. With the default
  configuration, groups of 10 and at most 1000 groups, a deposit of 10009 charges is propagated
  in 1001 groups.
\<close>

theorem limit_on_groups_exceeded:
  "max_charge_groups slab_two_groups = 2
   \<and> adjusted_charge_per_step slab_two_groups 5 = Inr (2, False)
   \<and> map_option (map_sum id group_sizes) (run slab_two_groups [electrons_at 0 0 5] 0 0 0)
       = Some (Inr [2, 2, 1])
   \<and> max_charge_groups slab = 1000
   \<and> adjusted_charge_per_step slab 10009 = Inr (10, False)
   \<and> map_option (map_sum id (\<lambda>ev. length (propagated_charges ev)))
        (run slab [electrons_at 0 0 10009] 0 0 0) = Some (Inr 1001)"
proof -
  have two: "max_charge_groups slab_two_groups = 2" "charge_per_step slab_two_groups = 2"
    by (simp_all add: slab_two_groups_def slab_def)
  have dflt: "max_charge_groups slab = 1000" "charge_per_step slab = 10"
    by (simp_all add: slab_def)
  have a2: "adjusted_charge_per_step slab_two_groups 5 = Inr (2, False)"
    by (simp add: adjusted_charge_per_step_def two)
  have a10: "adjusted_charge_per_step slab 10009 = Inr (10, False)"
    by (simp add: adjusted_charge_per_step_def dflt)
  have p2: "processed slab_two_groups (electrons_at 0 0 5)"
    by (simp add: processed_def electrons_at_def slab_two_groups_def slab_def)
  have p10: "processed slab (electrons_at 0 0 10009)"
    by (simp add: processed_def electrons_at_def slab_def)
  have g2: "peeled_groups 5 2 = [2, 2, 1]" by code_simp
  have g10: "length (peeled_groups 10009 10) = 1001" by (simp add: length_peeled_groups)
  have c2: "0 < charge_per_step slab_two_groups" by (simp add: two)
  have c10: "0 < charge_per_step slab" by (simp add: dflt)
  have d2: "dep_charge (electrons_at 0 0 5) = 5" and d10: "dep_charge (electrons_at 0 0 10009) = 10009"
    by (simp_all add: electrons_at_def)
  from run_deposit_processed [OF slab_two_groups_propagate_returns c2 p2, of "event_start 0 0 0"]
  obtain ev2 S2 raised2 where "adjusted_charge_per_step slab_two_groups 5 = Inr (S2, raised2)"
    and "run_deposit slab_two_groups (electrons_at 0 0 5) (event_start 0 0 0) = Some (Inr ev2)"
    and "group_sizes ev2 = group_sizes (event_start (0::nat) 0 0) @ peeled_groups 5 S2"
    unfolding d2 by blast
  then have r2: "map_option (map_sum id group_sizes) (run slab_two_groups [electrons_at 0 0 5] 0 0 0)
       = Some (Inr [2, 2, 1])"
    by (simp add: a2 g2 run_def event_start_fields)
  from run_deposit_processed [OF slab_propagate_returns c10 p10, of "event_start 0 0 0"]
  obtain ev10 S10 raised10 where "adjusted_charge_per_step slab 10009 = Inr (S10, raised10)"
    and "run_deposit slab (electrons_at 0 0 10009) (event_start 0 0 0) = Some (Inr ev10)"
    and "length (propagated_charges ev10)
           = length (propagated_charges (event_start (0::nat) 0 0)) + length (peeled_groups 10009 S10)"
    unfolding d10 by blast
  then have r10: "map_option (map_sum id (\<lambda>ev. length (propagated_charges ev)))
        (run slab [electrons_at 0 0 10009] 0 0 0) = Some (Inr 1001)"
    by (simp add: a10 g10 run_def event_start_fields)
  from two dflt a2 a10 r2 r10 show ?thesis by simp
qed

section \<open>Deposits that are skipped\<close>

lemma record_group_records:
  "propagated_charges (record_group m d cps r ev) =
     propagated_charges ev @ [last (propagated_charges (record_group m d cps r ev))]"
  "pc_deposit (last (propagated_charges (record_group m d cps r ev))) = d"
  by (simp_all add: record_group_def Let_def)

lemma charge_loop_records:
  assumes "charge_loop m d C S ev = Some ev'"
  shows "\<exists>new. propagated_charges ev' = propagated_charges ev @ new
           \<and> (\<forall>pc \<in> set new. pc_deposit pc = d)"
proof -
  define P where "P = (\<lambda>(m1::'a Module) d1 (C1::nat) (S1::nat) (e1::'a Event) (e2::'a Event).
     \<exists>new. propagated_charges e2 = propagated_charges e1 @ new
           \<and> (\<forall>pc \<in> set new. pc_deposit pc = d1))"
  have "P m d C S ev ev'"
  proof (rule charge_loop.raw_induct [where P = P, OF _ assms])
    fix f m1 d1 C1 S1 e1 e2
    assume IH: "\<And>m2 d2 C2 S2 e3 y. f m2 d2 C2 S2 e3 = Some y \<Longrightarrow> P m2 d2 C2 S2 e3 y"
      and body: "(if 0 < C1
           then let cps1 = if C1 < S1 then C1 else S1; charges_remaining1 = C1 - cps1
                in case propagate m1 (dep_local_position d1) (dep_type d1) (dep_local_time d1)
                          (random_engine e1) of
                     None \<Rightarrow> None
                   | Some r \<Rightarrow> f m1 d1 charges_remaining1 cps1 (record_group m1 d1 cps1 r e1)
           else Some e1) = Some e2"
    show "P m1 d1 C1 S1 e1 e2"
    proof (cases "0 < C1")
      case False
      with body have "e2 = e1" by simp
      then show ?thesis unfolding P_def by simp
    next
      case True
      let ?g = "if C1 < S1 then C1 else S1"
      from True body obtain r where "f m1 d1 (C1 - ?g) ?g (record_group m1 d1 ?g r e1) = Some e2"
        by (auto simp: Let_def split: option.splits)
      from IH [OF this] obtain new where
        n: "propagated_charges e2 = propagated_charges (record_group m1 d1 ?g r e1) @ new"
        and a: "\<forall>pc \<in> set new. pc_deposit pc = d1"
        unfolding P_def by blast
      let ?pc = "last (propagated_charges (record_group m1 d1 ?g r e1))"
      have "propagated_charges e2 = propagated_charges e1 @ (?pc # new)"
        using n record_group_records(1) [of m1 d1 ?g r e1] by simp
      moreover have "\<forall>pc \<in> set (?pc # new). pc_deposit pc = d1"
        using a record_group_records(2) [of m1 d1 ?g r e1] by simp
      ultimately show ?thesis unfolding P_def by blast
    qed
  qed
  then show ?thesis unfolding P_def .
qed

lemma run_deposit_records:
  assumes "run_deposit m d ev = Some (Inr ev')"
  shows "\<exists>new. propagated_charges ev' = propagated_charges ev @ new
           \<and> (\<forall>pc \<in> set new. pc_deposit pc = d \<and> processed m d)"
proof (cases "processed m d")
  case False
  with assms have "ev' = ev" by (simp add: run_deposit_skipped)
  then show ?thesis by simp
next
  case True
  with assms obtain S raised where "charge_loop m d (dep_charge d) S
      (ev\<lparr>total_deposits := total_deposits ev + 1,
          deposits_exceeding_max_groups :=
            (if raised then deposits_exceeding_max_groups ev + 1
             else deposits_exceeding_max_groups ev)\<rparr>) = Some ev'"
    by (auto simp: run_deposit_def processed_def split: sum.splits)
  from charge_loop_records [OF this] True show ?thesis by simp
qed

lemma run_deposits_records:
  assumes "run_deposits m ds ev = Some (Inr ev')"
  shows "\<exists>new. propagated_charges ev' = propagated_charges ev @ new
           \<and> (\<forall>pc \<in> set new. pc_deposit pc \<in> set ds \<and> processed m (pc_deposit pc))"
  using assms
proof (induction ds arbitrary: ev)
  case Nil
  then show ?case by simp
next
  case (Cons d ds)
  from Cons.prems obtain ev1 where r: "run_deposit m d ev = Some (Inr ev1)"
    and rest: "run_deposits m ds ev1 = Some (Inr ev')"
    by (auto split: option.splits sum.splits)
  from run_deposit_records [OF r] obtain new1 where
    n1: "propagated_charges ev1 = propagated_charges ev @ new1"
    and a1: "\<forall>pc \<in> set new1. pc_deposit pc = d \<and> processed m d"
    by blast
  from Cons.IH [OF rest] obtain new2 where
    n2: "propagated_charges ev' = propagated_charges ev1 @ new2"
    and a2: "\<forall>pc \<in> set new2. pc_deposit pc \<in> set ds \<and> processed m (pc_deposit pc)"
    by blast
  have "propagated_charges ev' = propagated_charges ev @ (new1 @ new2)" using n1 n2 by simp
  moreover have "\<forall>pc \<in> set (new1 @ new2). pc_deposit pc \<in> set (d # ds)
                    \<and> processed m (pc_deposit pc)"
    using a1 a2 by auto
  ultimately show ?case by blast
qed

lemma run_deposits_skip:
  assumes "\<not> processed m d"
  shows "run_deposits m (ds @ d # ds') ev = run_deposits m (ds @ ds') ev"
proof (induction ds arbitrary: ev)
  case Nil
  show ?case using assms by (simp add: run_deposit_skipped)
next
  case (Cons e ds)
  then show ?case by (simp split: option.splits sum.splits)
qed

text \<open>
  Claim C9, as amended. A deposit whose local time exceeds the integration time is passed
  over: the iteration for it returns normally and leaves everything \<^verbatim>\<open>run\<close> accumulates as
  it was (no output record, no draw from the random engine, no counter), so \<^verbatim>\<open>run\<close>
  behaves as if the deposit were not in the list, and no output record of \<^verbatim>\<open>run\<close> refers
  to it.
\<close>

theorem late_deposit_is_skipped:
  assumes "dep_local_time d > integration_time m"
  shows "run_deposit m d ev = Some (Inr ev)
       \<and> run_deposits m (ds @ d # ds') ev = run_deposits m (ds @ ds') ev
       \<and> (\<forall>ev'. run m deposits g n k = Some (Inr ev') \<longrightarrow>
             (\<forall>pc \<in> set (propagated_charges ev'). pc_deposit pc \<noteq> d))"
proof -
  from assms have np: "\<not> processed m d" by (simp add: processed_def)
  have "\<forall>pc \<in> set (propagated_charges ev'). pc_deposit pc \<noteq> d"
    if "run m deposits g n k = Some (Inr ev')" for ev'
  proof -
    from that have "run_deposits m deposits (event_start g n k) = Some (Inr ev')"
      by (simp add: run_def)
    from run_deposits_records [OF this] np show ?thesis
      by (auto simp: event_start_fields)
  qed
  with np show ?thesis by (simp add: run_deposit_skipped run_deposits_skip)
qed

theorem late_deposit_is_skipped_witness:
  "dep_local_time (electrons_at 0 2 7) > integration_time slab
   \<and> run_deposit slab (electrons_at 0 2 7) (event_start 0 0 0) = Some (Inr (event_start 0 0 0))
   \<and> run_deposits slab ([electrons_at 0 0 5] @ electrons_at 0 2 7 # []) (event_start 0 0 0)
       = run_deposits slab ([electrons_at 0 0 5] @ []) (event_start 0 0 0)
   \<and> (\<exists>ev'. run slab [electrons_at 0 0 5, electrons_at 0 2 7] 0 0 0 = Some (Inr ev')
          \<and> filter (\<lambda>pc. pc_deposit pc = electrons_at 0 2 7) (propagated_charges ev') = [])"
proof -
  have l: "dep_local_time (electrons_at 0 2 7) > integration_time slab"
    by (simp add: electrons_at_def slab_def)
  have c: "0 < charge_per_step slab" by (simp add: slab_def)
  note t = late_deposit_is_skipped [OF l, of "event_start 0 0 0" "[electrons_at 0 0 5]" "[]"
      "[electrons_at 0 0 5, electrons_at 0 2 7]" 0 0 0]
  from run_deposits_groups [OF slab_propagate_returns c,
      of "[electrons_at 0 0 5, electrons_at 0 2 7]" "event_start 0 0 0"]
  obtain ev' where r: "run slab [electrons_at 0 0 5, electrons_at 0 2 7] 0 0 0 = Some (Inr ev')"
    unfolding run_def by blast
  with t have "\<forall>pc \<in> set (propagated_charges ev'). pc_deposit pc \<noteq> electrons_at 0 2 7"
    by blast
  then have "filter (\<lambda>pc. pc_deposit pc = electrons_at 0 2 7) (propagated_charges ev') = []"
    by (simp add: filter_empty_conv)
  with r t l show ?thesis by blast
qed

theorem skipped_deposit_not_counted_counterexample:
  "run slab [electrons_at 0 2 7] 0 0 0 =
     Some (Inr \<lparr>propagated_charges = [], group_sizes = [], random_engine = 0,
               propagated_charges_count = 0, recombined_charges_count = 0,
               trapped_charges_count = 0, step_count = 0, total_time = 0, total_deposits = 0,
               deposits_exceeding_max_groups = 0\<rparr>)"
  by (simp add: run_def run_deposit_def event_start_def electrons_at_def slab_def)

end
